theory Spec2Isabelle
  imports Complex_Main
begin

section \<open>The airdrop claim service (airdropService.ts)\<close>

text \<open>
  The service is TypeScript: its types are erased when it runs, so the fields of a parsed
  wallet message are whatever JSON values the sender put there. The model therefore works
  on JSON values and writes out the JavaScript operations the source applies to them:
  truthiness (the operands of \<open>&&\<close> and the test of \<open>if\<close>), property reads, and the
  unary plus that turns the token id into a number.

  Not part of the repository's source, and taken as parameters: \<open>JSON.parse\<close> (a function
  from the message text to a JSON value, \<open>None\<close> when it throws its SyntaxError), the
  \<open>Connection\<close> of the gateway SDK (its constructor, \<open>bulkFetchObjects\<close> and
  \<open>callMoveFunction\<close>, each answering with a result or a rejection), and the process
  environment (each variable a string or undefined).
\<close>

subsection \<open>JavaScript values\<close>

text \<open>
  A Number, which is a binary64 value: \<open>NaN\<close>, the two infinities, the negative zero,
  and \<open>Num q\<close> for every other one, \<open>q\<close> being its value (\<open>Num 0\<close> is the positive
  zero).
\<close>

datatype jsnum = NaN | Infinity | NegInfinity | NegZero | Num rat

text \<open>
  A value produced by \<open>JSON.parse\<close>. An object lists its own properties, each key once.
  Strings are lists of code units below 256.
\<close>

datatype json =
    JNull
  | JBool bool
  | JNum jsnum
  | JStr string
  | JArr "json list"
  | JObj "(string \<times> json) list"

text \<open>A JavaScript value is a JSON value or \<open>undefined\<close> (\<open>None\<close>).\<close>

type_synonym jsvalue = "json option"

text \<open>
  The errors the service can end with. \<open>SyntaxError\<close> is thrown by \<open>JSON.parse\<close>;
  \<open>TypeError p\<close> by reading property \<open>p\<close> of \<open>undefined\<close> or \<open>null\<close>;
  \<open>TypeError_primitive\<close> is the TypeError "Cannot convert object to primitive value"
  of a conversion; \<open>ValidateError v m\<close> is tsoa's \<open>ValidateError\<close> with the field
  \<open>{message: 'Wrong format', value: v}\<close> and the message \<open>m\<close>; \<open>Error m\<close> is a plain
  \<open>Error\<close> whose message starts with the literal text \<open>m\<close> (the rendering of the
  interpolated list after it is left out); \<open>Rejected r\<close> is a rejection of a call to the
  connection, which the service passes on unchanged.
\<close>

datatype error =
    SyntaxError
  | TypeError string
  | TypeError_primitive
  | ValidateError jsvalue string
  | Error string
  | Rejected string

text \<open>ToBoolean: \<open>undefined\<close>, \<open>null\<close>, \<open>false\<close>, \<open>0\<close>, \<open>NaN\<close> and \<open>''\<close> are falsy.\<close>

fun truthy :: "jsvalue \<Rightarrow> bool" where
  "truthy None = False"
| "truthy (Some JNull) = False"
| "truthy (Some (JBool b)) = b"
| "truthy (Some (JNum n)) = (n \<noteq> NaN \<and> n \<noteq> Num 0 \<and> n \<noteq> NegZero)"
| "truthy (Some (JStr s)) = (s \<noteq> [])"
| "truthy (Some (JArr xs)) = True"
| "truthy (Some (JObj kvs)) = True"

text \<open>
  The property read \<open>v.k\<close> (or \<open>v['k']\<close>), for the keys this program reads: \<open>message\<close>
  and the five field names, none of which is a property of a prototype. Reading from
  \<open>undefined\<close> or \<open>null\<close> throws; a primitive or an array has no such property; an object
  answers with its own property of that name, or \<open>undefined\<close>.
\<close>

fun get_prop :: "jsvalue \<Rightarrow> string \<Rightarrow> error + jsvalue" where
  "get_prop None k = Inl (TypeError k)"
| "get_prop (Some JNull) k = Inl (TypeError k)"
| "get_prop (Some (JObj kvs)) k = Inr (map_of kvs k)"
| "get_prop (Some (JBool b)) k = Inr None"
| "get_prop (Some (JNum n)) k = Inr None"
| "get_prop (Some (JStr s)) k = Inr None"
| "get_prop (Some (JArr xs)) k = Inr None"

subsection \<open>Unary plus: ToNumber\<close>

text \<open>
  \<open>+source_token_id\<close> applies ToNumber. On a string that is StringToNumber of
  ECMA-262: white space is trimmed, the empty text is \<open>0\<close>, a StrNumericLiteral (a signed
  decimal literal with optional fraction and exponent, \<open>Infinity\<close>, or an unsigned binary,
  octal or hexadecimal integer literal) is the binary64 value nearest to the value it
  denotes, and anything else is \<open>NaN\<close>.
\<close>

text \<open>The number of binary digits of \<open>n\<close>.\<close>

fun bit_length :: "nat \<Rightarrow> nat" where
  "bit_length n = (if n = 0 then 0 else Suc (bit_length (n div 2)))"

declare bit_length.simps [simp del]

definition pow2 :: "int \<Rightarrow> rat" where
  "pow2 k = (if 0 \<le> k then 2 ^ nat k else 1 / 2 ^ nat (- k))"

text \<open>
  The Number for the fraction \<open>m / d\<close> (with \<open>d\<close> positive): the binary64 value nearest
  to it, the one with the even significand when two are as near; \<open>Infinity\<close> when that
  rounding reaches \<open>2 ^ 1024\<close>, which takes the exponent 1023 at least. Here \<open>e\<close> is the binary exponent of the fraction
  (\<open>2 ^ e \<le> m / d < 2 ^ (e + 1)\<close>), \<open>2 ^ s\<close> the distance between neighbouring binary64
  values at that exponent (53 significant bits, and no exponent below \<open>-1022\<close>), and \<open>n\<close>
  the fraction in units of \<open>2 ^ s\<close>, rounded. ECMA-262 leaves the implementation a choice
  for a decimal literal of more than 20 significant digits; the rounding of the exact
  value is what V8 does.
\<close>

definition binary64 :: "nat \<Rightarrow> nat \<Rightarrow> jsnum" where
  "binary64 m d =
     (if m = 0 then Num 0
      else
        let l = int (bit_length m) - int (bit_length d);
            e = (if (if 0 \<le> l then d * 2 ^ nat l \<le> m else d \<le> m * 2 ^ nat (- l))
                 then l else l - 1);
            s = max e (- 1022) - 52;
            num = (if 0 \<le> s then m else m * 2 ^ nat (- s));
            den = (if 0 \<le> s then d * 2 ^ nat s else d);
            q = num div den;
            r = num mod den;
            n = (if 2 * r < den then q
                 else if den < 2 * r then q + 1
                 else if even q then q else q + 1);
            v = of_nat n * pow2 s
        in if 971 \<le> s then (if 2 ^ 1024 \<le> n * 2 ^ nat s then Infinity else Num v)
           else Num v)"

definition StrWhiteSpaceChar :: "char \<Rightarrow> bool" where
  "StrWhiteSpaceChar c = ((of_char c :: nat) \<in> {9, 10, 11, 12, 13, 32, 160})"

definition DecimalDigit :: "char \<Rightarrow> bool" where
  "DecimalDigit c = (48 \<le> (of_char c :: nat) \<and> (of_char c :: nat) \<le> 57)"

text \<open>Is \<open>c\<close> a digit of base \<open>b\<close> (2, 8, 10 or 16)?\<close>

definition digit_of_base :: "nat \<Rightarrow> char \<Rightarrow> bool" where
  "digit_of_base b c =
     (let n = (of_char c :: nat)
      in (48 \<le> n \<and> n < 48 + min b 10)
         \<or> (b = 16 \<and> ((97 \<le> n \<and> n \<le> 102) \<or> (65 \<le> n \<and> n \<le> 70))))"

definition digit_value :: "char \<Rightarrow> nat" where
  "digit_value c =
     (let n = (of_char c :: nat)
      in if n \<le> 57 then n - 48 else if 97 \<le> n then n - 87 else n - 55)"

definition digits_value :: "nat \<Rightarrow> string \<Rightarrow> nat" where
  "digits_value b ds = foldl (\<lambda>a c. a * b + digit_value c) 0 ds"

text \<open>
  The exponent denoted by the text after the mantissa: nothing (exponent 0), or \<open>e\<close> or
  \<open>E\<close>, an optional sign and at least one digit. \<open>None\<close>: the text is neither.
\<close>

definition ExponentPart :: "string \<Rightarrow> int option" where
  "ExponentPart s =
     (case s of
        [] \<Rightarrow> Some 0
      | c # t \<Rightarrow>
          if c = CHR ''e'' \<or> c = CHR ''E'' then
            (let neg = (t \<noteq> [] \<and> hd t = CHR ''-'');
                 ds = (if t \<noteq> [] \<and> (hd t = CHR ''+'' \<or> hd t = CHR ''-'') then tl t else t)
             in if ds \<noteq> [] \<and> list_all DecimalDigit ds
                then Some (if neg then - int (digits_value 10 ds) else int (digits_value 10 ds))
                else None)
          else None)"

text \<open>
  An unsigned decimal literal: the digits before and after the point, read as one
  number, times ten to the exponent less the number of digits after the point.
\<close>

definition StrUnsignedDecimalLiteral :: "string \<Rightarrow> jsnum" where
  "StrUnsignedDecimalLiteral s =
     (if s = ''Infinity'' then Infinity
      else
        let ip = takeWhile DecimalDigit s;
            r = dropWhile DecimalDigit s;
            dot = (r \<noteq> [] \<and> hd r = CHR ''.'');
            fp = (if dot then takeWhile DecimalDigit (tl r) else []);
            r' = (if dot then dropWhile DecimalDigit (tl r) else r)
        in if ip = [] \<and> fp = [] then NaN
           else
             (case ExponentPart r' of
                None \<Rightarrow> NaN
              | Some e \<Rightarrow>
                  let k = e - int (length fp);
                      m = digits_value 10 (ip @ fp)
                  in if 0 \<le> k then binary64 (m * 10 ^ nat k) 1
                     else binary64 m (10 ^ nat (- k))))"

fun negate :: "jsnum \<Rightarrow> jsnum" where
  "negate NaN = NaN"
| "negate Infinity = NegInfinity"
| "negate NegInfinity = Infinity"
| "negate NegZero = Num 0"
| "negate (Num q) = (if q = 0 then NegZero else Num (- q))"

definition StrDecimalLiteral :: "string \<Rightarrow> jsnum" where
  "StrDecimalLiteral s =
     (case s of
        [] \<Rightarrow> NaN
      | c # t \<Rightarrow>
          if c = CHR ''+'' then StrUnsignedDecimalLiteral t
          else if c = CHR ''-'' then negate (StrUnsignedDecimalLiteral t)
          else StrUnsignedDecimalLiteral s)"

text \<open>\<open>0b\<close>, \<open>0o\<close> and \<open>0x\<close> literals (either case of the letter), without a sign.\<close>

definition NonDecimalIntegerLiteral :: "string \<Rightarrow> nat option" where
  "NonDecimalIntegerLiteral s =
     (case s of
        z # x # ds \<Rightarrow>
          (let b = (if x = CHR ''b'' \<or> x = CHR ''B'' then 2
                    else if x = CHR ''o'' \<or> x = CHR ''O'' then 8
                    else if x = CHR ''x'' \<or> x = CHR ''X'' then 16
                    else (0::nat))
           in if z = CHR ''0'' \<and> b \<noteq> 0 \<and> ds \<noteq> [] \<and> list_all (digit_of_base b) ds
              then Some (digits_value b ds) else None)
      | _ \<Rightarrow> None)"

definition StringToNumber :: "string \<Rightarrow> jsnum" where
  "StringToNumber s =
     (let t = rev (dropWhile StrWhiteSpaceChar (rev (dropWhile StrWhiteSpaceChar s)))
      in if t = [] then Num 0
         else
           (case NonDecimalIntegerLiteral t of
              Some n \<Rightarrow> binary64 n 1
            | None \<Rightarrow> StrDecimalLiteral t))"

text \<open>
  ToNumber of an object or an array first turns it into a string. That conversion
  throws a TypeError for an object that has a property \<open>toString\<close> of its own: the
  value of that property, coming from \<open>JSON.parse\<close>, is not a function, and the
  \<open>valueOf\<close> that is tried besides it (the object's own, which is no function either, or
  the inherited one, which returns the object) gives no primitive value. It throws for
  an array when the conversion of one of its elements does, since the string of an
  array is the strings of its elements joined by commas.
\<close>

fun ToString_throws :: "json \<Rightarrow> bool"
  and ToString_throws_list :: "json list \<Rightarrow> bool" where
  "ToString_throws JNull = False"
| "ToString_throws (JBool b) = False"
| "ToString_throws (JNum n) = False"
| "ToString_throws (JStr s) = False"
| "ToString_throws (JObj kvs) = (map_of kvs ''toString'' \<noteq> None)"
| "ToString_throws (JArr xs) = ToString_throws_list xs"
| "ToString_throws_list [] = False"
| "ToString_throws_list (x # xs) = (ToString_throws x \<or> ToString_throws_list xs)"

text \<open>
  The Number that the string of an array denotes, when making that string does not
  throw. The string is empty for the empty array, and it has a comma, so that it is no
  number, for two elements or more. For a single element it is the string of that
  element: empty for \<open>null\<close>, \<open>true\<close> or \<open>false\<close> for a boolean, \<open>[object Object]\<close>
  for an object, and for a number the numeral that reads back as the same number (as
  the positive zero for the negative one).
\<close>

fun array_number :: "json list \<Rightarrow> jsnum" where
  "array_number [] = Num 0"
| "array_number [JNull] = Num 0"
| "array_number [JBool b] = NaN"
| "array_number [JNum n] = (if n = NegZero then Num 0 else n)"
| "array_number [JStr s] = StringToNumber s"
| "array_number [JObj kvs] = NaN"
| "array_number [JArr ys] = array_number ys"
| "array_number (x # y # zs) = NaN"

text \<open>ToNumber of a JSON value.\<close>

fun to_number :: "json \<Rightarrow> error + jsnum" where
  "to_number JNull = Inr (Num 0)"
| "to_number (JBool b) = Inr (if b then Num 1 else Num 0)"
| "to_number (JNum n) = Inr n"
| "to_number (JStr s) = Inr (StringToNumber s)"
| "to_number (JObj kvs) =
     (if ToString_throws (JObj kvs) then Inl TypeError_primitive else Inr NaN)"
| "to_number (JArr xs) =
     (if ToString_throws (JArr xs) then Inl TypeError_primitive else Inr (array_number xs))"

text \<open>Unary plus; \<open>+undefined\<close> is \<open>NaN\<close>.\<close>

definition unary_plus :: "jsvalue \<Rightarrow> error + jsnum" where
  "unary_plus v = (case v of None \<Rightarrow> Inr NaN | Some j \<Rightarrow> to_number j)"

subsection \<open>Data of the service and of its collaborators\<close>

definition DEFAULT_GAS_BUDGET :: nat where
  "DEFAULT_GAS_BUDGET = 2000"

record AirdropClaimRequest =
  wallet_message :: string
  signature :: string

text \<open>
  The response. Its first three fields are declared \<open>string\<close> and hold what the claim's
  fields hold, which is any JavaScript value.
\<close>

record AirdropClaimResponse =
  source_chain :: jsvalue
  source_contract_address :: jsvalue
  source_token_id :: jsvalue
  sui_explorer_link :: string

text \<open>\<open>process.env\<close>: the variables the service reads, each a string or undefined.\<close>

record env =
  SUI_GATEWAY_ENDPOINT :: "string option"
  ORACLE_ADDRESS :: "string option"
  ORACLE_CONTRACT_ENTRY_FUNCTION :: "string option"
  ORACLE_CONTRACT_ADMIN_IDENTIFIER :: "string option"
  ORACLE_CONTRACT_PACKAGE :: "string option"
  ORACLE_CONTRACT_MODULE :: "string option"

text \<open>
  An object of the chain as the service uses it: a created object by its \<open>id\<close>, an owned
  object by its \<open>id\<close> and \<open>objType\<close>.
\<close>

record object_ref =
  id' :: string

record sui_object = object_ref +
  objType :: string

text \<open>The argument of \<open>callMoveFunction\<close>.\<close>

record move_call_request =
  args :: "jsvalue list"
  function' :: "string option"
  gasBudget :: nat
  gasObjectId :: string
  module' :: string
  packageObjectId :: string
  sender :: "string option"

text \<open>
  The answer of \<open>callMoveFunction\<close>, of which the service reads
  \<open>objectEffectsSummary.created_objects\<close>.
\<close>

record move_call_result =
  created_objects :: "object_ref list"

record connection =
  bulkFetchObjects :: "string option \<Rightarrow> error + sui_object list"
  callMoveFunction :: "move_call_request \<Rightarrow> error + move_call_result"

text \<open>What the service does to the chain, in the order it does it.\<close>

datatype io_event =
    NewConnection "string option"
  | BulkFetchObjects "string option"
  | CallMoveFunction move_call_request

subsection \<open>The operations\<close>

text \<open>\<open>function isAirdropClaimInfo\<close>: the value of the chain of \<open>&&\<close>.\<close>

definition isAirdropClaimInfo :: "jsvalue \<Rightarrow> error + jsvalue" where
  "isAirdropClaimInfo arg =
     (case get_prop arg ''source_chain'' of
        Inl err \<Rightarrow> Inl err
      | Inr v1 \<Rightarrow>
          if \<not> truthy v1 then Inr v1
          else
            (case get_prop arg ''source_contract_address'' of
               Inl err \<Rightarrow> Inl err
             | Inr v2 \<Rightarrow>
                 if \<not> truthy v2 then Inr v2
                 else
                   (case get_prop arg ''source_token_id'' of
                      Inl err \<Rightarrow> Inl err
                    | Inr v3 \<Rightarrow>
                        if \<not> truthy v3 then Inr v3
                        else
                          (case get_prop arg ''source_owner_address'' of
                             Inl err \<Rightarrow> Inl err
                           | Inr v4 \<Rightarrow>
                               if \<not> truthy v4 then Inr v4
                               else get_prop arg ''destination_sui_address''))))"

text \<open>\<open>parseClaimInfo\<close>: the claim is the \<open>message\<close> member itself, not a copy.\<close>

definition parseClaimInfo :: "json \<Rightarrow> error + jsvalue" where
  "parseClaimInfo data =
     (case get_prop (Some data) ''message'' of
        Inl err \<Rightarrow> Inl err
      | Inr message \<Rightarrow>
          (case isAirdropClaimInfo message of
             Inl err \<Rightarrow> Inl err
           | Inr ok \<Rightarrow>
               if truthy ok then Inr message
               else Inl (ValidateError message ''Wrong format for wallet message'')))"

definition formatObjectId :: "string \<Rightarrow> string" where
  "formatObjectId i = ''0x'' @ i"

text \<open>\<open>v || d\<close> for an environment variable \<open>v\<close>: undefined and the empty string are falsy.\<close>

definition or_default :: "string option \<Rightarrow> string \<Rightarrow> string" where
  "or_default v d = (case v of None \<Rightarrow> d | Some s \<Rightarrow> if s = [] then d else s)"

definition getPackageAndModule :: "env \<Rightarrow> string \<times> string" where
  "getPackageAndModule e =
     (or_default (ORACLE_CONTRACT_PACKAGE e) ''0x2'',
      or_default (ORACLE_CONTRACT_MODULE e) ''CrossChainAirdrop'')"

text \<open>String concatenation with a variable that may be undefined.\<close>

definition concat_operand :: "string option \<Rightarrow> string" where
  "concat_operand v = (case v of None \<Rightarrow> ''undefined'' | Some s \<Rightarrow> s)"

definition oracle_object_identifier :: "env \<Rightarrow> string" where
  "oracle_object_identifier e =
     (case getPackageAndModule e of
        (package_name, module_name) \<Rightarrow>
          package_name @ ''::'' @ module_name @ ''::''
            @ concat_operand (ORACLE_CONTRACT_ADMIN_IDENTIFIER e))"

text \<open>
  \<open>getGasAndOracle\<close>. \<open>objects.filter(...)[0].id\<close> reads \<open>id\<close> of \<open>undefined\<close> when the
  filter keeps nothing, which throws a TypeError.
\<close>

definition getGasAndOracle ::
  "env \<Rightarrow> connection \<Rightarrow> string option \<Rightarrow> (error + string \<times> string) \<times> io_event list" where
  "getGasAndOracle e conn oracleAddress =
     ((case bulkFetchObjects conn oracleAddress of
         Inl err \<Rightarrow> Inl err
       | Inr objects \<Rightarrow>
           (case filter (\<lambda>obj. objType obj = ''0x2::Coin::Coin<0x2::GAS::GAS>'') objects of
              [] \<Rightarrow> Inl (TypeError ''id'')
            | g # rest \<Rightarrow>
                let gasCoin = id' g;
                    oracle = filter (\<lambda>obj. objType obj = oracle_object_identifier e) objects
                in if length oracle \<noteq> 1
                   then Inl (Error ''Unexpected number of oracle object: '')
                   else Inr (formatObjectId gasCoin, formatObjectId (id' (oracle ! 0))))),
      [BulkFetchObjects oracleAddress])"

text \<open>
  Lines 126 to 155 of \<open>executeMoveCall\<close>: the request built from the claim and the two
  resolved identifiers. Destructuring \<open>undefined\<close> or \<open>null\<close> throws a TypeError, and so
  does \<open>+source_token_id\<close> when the token id has no primitive value.
\<close>

definition build_request ::
  "env \<Rightarrow> string option \<Rightarrow> string \<Rightarrow> string \<Rightarrow> jsvalue \<Rightarrow> error + move_call_request" where
  "build_request e oracleAddress gasObjectId' oracleObjectId claimInfo =
     (case get_prop claimInfo ''destination_sui_address'' of
        Inl err \<Rightarrow> Inl err
      | Inr destination_sui_address \<Rightarrow>
          (case get_prop claimInfo ''source_contract_address'' of
             Inl err \<Rightarrow> Inl err
           | Inr source_contract_address' \<Rightarrow>
               (case get_prop claimInfo ''source_token_id'' of
                  Inl err \<Rightarrow> Inl err
                | Inr source_token_id' \<Rightarrow>
                    (case unary_plus source_token_id' of
                       Inl err \<Rightarrow> Inl err
                     | Inr token_number \<Rightarrow>
                         let name = ''BoredApeYachtClub'';
                             tokenUri = ''ipfs://abc'';
                             args' = [Some (JStr oracleObjectId),
                                      destination_sui_address,
                                      source_contract_address',
                                      Some (JNum token_number),
                                      Some (JStr name),
                                      Some (JStr tokenUri)]
                         in (case getPackageAndModule e of
                               (packageObjectId', module_name) \<Rightarrow>
                                 Inr \<lparr>args = args',
                                      function' = ORACLE_CONTRACT_ENTRY_FUNCTION e,
                                      gasBudget = DEFAULT_GAS_BUDGET,
                                      gasObjectId = gasObjectId',
                                      module' = module_name,
                                      packageObjectId = packageObjectId',
                                      sender = oracleAddress\<rparr>)))))"

definition executeMoveCall ::
  "env \<Rightarrow> connection \<Rightarrow> jsvalue \<Rightarrow> (error + string) \<times> io_event list" where
  "executeMoveCall e conn claimInfo =
     (let oracleAddress = ORACLE_ADDRESS e
      in case getGasAndOracle e conn oracleAddress of
           (Inl err, io) \<Rightarrow> (Inl err, io)
         | (Inr (gasObjectId', oracleObjectId), io) \<Rightarrow>
             (case build_request e oracleAddress gasObjectId' oracleObjectId claimInfo of
                Inl err \<Rightarrow> (Inl err, io)
              | Inr request \<Rightarrow>
                  (case callMoveFunction conn request of
                     Inl err \<Rightarrow> (Inl err, io @ [CallMoveFunction request])
                   | Inr result \<Rightarrow>
                       let created = created_objects result
                       in if length created \<noteq> 1
                          then (Inl (Error ''Unexpected number of objects created: ''),
                                io @ [CallMoveFunction request])
                          else (Inr (id' (created ! 0)), io @ [CallMoveFunction request]))))"

text \<open>
  \<open>claim\<close>, with \<open>JSON.parse\<close> and the constructor of \<open>Connection\<close> as parameters. The
  result comes with the chain I/O performed on the way.
\<close>

definition claim ::
  "(string \<Rightarrow> json option) \<Rightarrow> (string option \<Rightarrow> connection) \<Rightarrow> env \<Rightarrow> AirdropClaimRequest
     \<Rightarrow> (error + AirdropClaimResponse) \<times> io_event list" where
  "claim JSON_parse new_Connection e claimMessage =
     (case JSON_parse (wallet_message claimMessage) of
        None \<Rightarrow> (Inl SyntaxError, [])
      | Some data \<Rightarrow>
          (case parseClaimInfo data of
             Inl err \<Rightarrow> (Inl err, [])
           | Inr claimInfo \<Rightarrow>
               let conn = new_Connection (SUI_GATEWAY_ENDPOINT e)
               in (case executeMoveCall e conn claimInfo of
                    (Inl err, io) \<Rightarrow> (Inl err, NewConnection (SUI_GATEWAY_ENDPOINT e) # io)
                  | (Inr created_id, io) \<Rightarrow>
                      (case get_prop claimInfo ''source_chain'' of
                         Inl err \<Rightarrow> (Inl err, NewConnection (SUI_GATEWAY_ENDPOINT e) # io)
                       | Inr v1 \<Rightarrow>
                           (case get_prop claimInfo ''source_contract_address'' of
                              Inl err \<Rightarrow> (Inl err, NewConnection (SUI_GATEWAY_ENDPOINT e) # io)
                            | Inr v2 \<Rightarrow>
                                (case get_prop claimInfo ''source_token_id'' of
                                   Inl err \<Rightarrow>
                                     (Inl err, NewConnection (SUI_GATEWAY_ENDPOINT e) # io)
                                 | Inr v3 \<Rightarrow>
                                     (Inr \<lparr>source_chain = v1,
                                           source_contract_address = v2,
                                           source_token_id = v3,
                                           sui_explorer_link =
                                             ''https://djgd7fpxio1yh.cloudfront.net/objects/7bc832ec31709638cd8d9323e90edf332gff4389''\<rparr>,
                                      NewConnection (SUI_GATEWAY_ENDPOINT e) # io)))))))"

subsection \<open>Names for stating the properties\<close>

text \<open>The five fields of a claim, in the order \<open>isAirdropClaimInfo\<close> reads them.\<close>

definition ClaimInfo_fields :: "string list" where
  "ClaimInfo_fields =
     [''source_chain'', ''source_contract_address'', ''source_token_id'',
      ''source_owner_address'', ''destination_sui_address'']"

definition GAS_COIN_TYPE :: string where
  "GAS_COIN_TYPE = ''0x2::Coin::Coin<0x2::GAS::GAS>''"

text \<open>
  The characters a StrNumericLiteral can start with: a digit (also of \<open>0x\<close>, \<open>0o\<close> and
  \<open>0b\<close>), a sign, the point, and the \<open>I\<close> of \<open>Infinity\<close>.
\<close>

definition numeric_start :: "char \<Rightarrow> bool" where
  "numeric_start c =
     (DecimalDigit c \<or> c = CHR ''+'' \<or> c = CHR ''-'' \<or> c = CHR ''.'' \<or> c = CHR ''I'')"

definition EXPLORER_LINK :: string where
  "EXPLORER_LINK =
     ''https://djgd7fpxio1yh.cloudfront.net/objects/7bc832ec31709638cd8d9323e90edf332gff4389''"

subsection \<open>Example inputs\<close>

text \<open>
  A wallet message with the claim of the source's example and a token id \<open>t\<close>: the text
  as it is sent, and the value \<open>JSON.parse\<close> gives for it.
\<close>

definition example_text :: "string \<Rightarrow> string" where
  \<open>example_text t =
     ''{"message":{"source_chain":"ethereum","source_contract_address":"0xBC4CA0EdA7647A8aB7C2061c2E118A18a936f13D","source_token_id":"''
     @ t
     @ ''","source_owner_address":"0x09dbc4a902199bbe7f7ec29b3714731786f2e878","destination_sui_address":"0xa5e6dbcf33730ace6ec8b400ff4788c1f150ff7e"}}''\<close>

definition example_message :: "string \<Rightarrow> json" where
  "example_message t =
     JObj [(''source_chain'', JStr ''ethereum''),
           (''source_contract_address'', JStr ''0xBC4CA0EdA7647A8aB7C2061c2E118A18a936f13D''),
           (''source_token_id'', JStr t),
           (''source_owner_address'', JStr ''0x09dbc4a902199bbe7f7ec29b3714731786f2e878''),
           (''destination_sui_address'', JStr ''0xa5e6dbcf33730ace6ec8b400ff4788c1f150ff7e'')]"


definition example_data :: "string \<Rightarrow> json" where
  "example_data t = JObj [(''message'', example_message t)]"

text \<open>
  \<open>JSON.parse\<close> on the texts of the examples: the wallet message above with the token ids
  \<open>8937\<close>, \<open>abc\<close>, a single space and the empty string, and the text \<open>{}\<close>. The examples
  give it one more text, \<open>{\<close>, which is not JSON.
\<close>

definition example_JSON_parse :: "string \<Rightarrow> json option" where
  \<open>example_JSON_parse =
     map_of [(example_text ''8937'', example_data ''8937''),
             (example_text ''abc'', example_data ''abc''),
             (example_text '' '', example_data '' ''),
             (example_text [], example_data []),
             (''{}'', JObj [])]\<close>

definition example_request :: "string \<Rightarrow> AirdropClaimRequest" where
  "example_request text = \<lparr>wallet_message = text, signature = ''abc''\<rparr>"

definition example_env :: env where
  "example_env =
     \<lparr>SUI_GATEWAY_ENDPOINT = Some ''http://127.0.0.1:5000'',
      ORACLE_ADDRESS = Some ''0xc0ffee'',
      ORACLE_CONTRACT_ENTRY_FUNCTION = Some ''claim'',
      ORACLE_CONTRACT_ADMIN_IDENTIFIER = Some ''Oracle'',
      ORACLE_CONTRACT_PACKAGE = None,
      ORACLE_CONTRACT_MODULE = None\<rparr>"

definition gas_object :: "string \<Rightarrow> sui_object" where
  "gas_object i = \<lparr>id' = i, objType = ''0x2::Coin::Coin<0x2::GAS::GAS>''\<rparr>"

definition oracle_object :: "string \<Rightarrow> sui_object" where
  "oracle_object i = \<lparr>id' = i, objType = ''0x2::CrossChainAirdrop::Oracle''\<rparr>"

text \<open>
  A connection that owns the objects \<open>objects\<close> and answers every move call with the
  created objects \<open>created\<close>, whatever the endpoint.
\<close>

definition mock_Connection ::
  "sui_object list \<Rightarrow> object_ref list \<Rightarrow> string option \<Rightarrow> connection" where
  "mock_Connection objects created endpoint =
     \<lparr>bulkFetchObjects = (\<lambda>address. Inr objects),
      callMoveFunction = (\<lambda>request. Inr \<lparr>created_objects = created\<rparr>)\<rparr>"

section \<open>Properties\<close>

subsection \<open>The parser\<close>

lemma isAirdropClaimInfo_object:
  "isAirdropClaimInfo (Some (JObj kvs)) = Inr v \<Longrightarrow>
     truthy v = (\<forall>k \<in> set ClaimInfo_fields. truthy (map_of kvs k))"
  by (auto simp: isAirdropClaimInfo_def ClaimInfo_fields_def split: if_splits)

lemma isAirdropClaimInfo_object_Inr:
  "\<exists>v. isAirdropClaimInfo (Some (JObj kvs)) = Inr v"
  by (simp add: isAirdropClaimInfo_def)

lemma isAirdropClaimInfo_undefined:
  "isAirdropClaimInfo None = Inl (TypeError ''source_chain'')"
  "isAirdropClaimInfo (Some JNull) = Inl (TypeError ''source_chain'')"
  by (simp_all add: isAirdropClaimInfo_def)

lemma isAirdropClaimInfo_primitive:
  "isAirdropClaimInfo (Some (JBool b)) = Inr None"
  "isAirdropClaimInfo (Some (JNum n)) = Inr None"
  "isAirdropClaimInfo (Some (JStr s)) = Inr None"
  "isAirdropClaimInfo (Some (JArr xs)) = Inr None"
  by (simp_all add: isAirdropClaimInfo_def)

text \<open>A claim that passes the parser is an object with its five fields truthy.\<close>

lemma parseClaimInfo_Inr:
  assumes "parseClaimInfo data = Inr claimInfo"
  shows "\<exists>kvs. claimInfo = Some (JObj kvs)
           \<and> get_prop (Some data) ''message'' = Inr claimInfo
           \<and> (\<forall>k \<in> set ClaimInfo_fields. truthy (map_of kvs k))"
proof -
  from assms obtain ok where m: "get_prop (Some data) ''message'' = Inr claimInfo"
    and ok: "isAirdropClaimInfo claimInfo = Inr ok" and t: "truthy ok"
    by (auto simp: parseClaimInfo_def split: sum.splits if_splits)
  show ?thesis
  proof (cases claimInfo)
    case None
    with ok show ?thesis by (simp add: isAirdropClaimInfo_undefined)
  next
    case (Some j)
    with ok t m show ?thesis
      by (cases j) (auto simp: isAirdropClaimInfo_undefined isAirdropClaimInfo_primitive
                         dest: isAirdropClaimInfo_object)
  qed
qed

lemma parseClaimInfo_object:
  assumes "get_prop (Some data) ''message'' = Inr (Some (JObj kvs))"
  shows "parseClaimInfo data =
           (if \<forall>k \<in> set ClaimInfo_fields. truthy (map_of kvs k) then Inr (Some (JObj kvs))
            else Inl (ValidateError (Some (JObj kvs)) ''Wrong format for wallet message''))"
proof -
  obtain v where v: "isAirdropClaimInfo (Some (JObj kvs)) = Inr v"
    using isAirdropClaimInfo_object_Inr by blast
  from isAirdropClaimInfo_object [OF v] v assms show ?thesis
    by (simp add: parseClaimInfo_def)
qed

subsection \<open>The object resolver\<close>

lemma getGasAndOracle_trace:
  "snd (getGasAndOracle e conn a) = [BulkFetchObjects a]"
  by (simp add: getGasAndOracle_def)

lemma getGasAndOracle_fetched:
  assumes "bulkFetchObjects conn a = Inr objects"
  shows "fst (getGasAndOracle e conn a) =
           (case filter (\<lambda>obj. objType obj = GAS_COIN_TYPE) objects of
              [] \<Rightarrow> Inl (TypeError ''id'')
            | g # rest \<Rightarrow>
                if length (filter (\<lambda>obj. objType obj = oracle_object_identifier e) objects) \<noteq> 1
                then Inl (Error ''Unexpected number of oracle object: '')
                else Inr (formatObjectId (id' g),
                          formatObjectId
                            (id' (filter (\<lambda>obj. objType obj = oracle_object_identifier e) objects ! 0))))"
  using assms by (simp add: getGasAndOracle_def GAS_COIN_TYPE_def Let_def split: list.splits)

lemma example_oracle_identifier:
  "oracle_object_identifier example_env = ''0x2::CrossChainAirdrop::Oracle''"
  by (simp add: oracle_object_identifier_def getPackageAndModule_def or_default_def
        concat_operand_def example_env_def)

text \<open>
  C7. What the code does when the oracle account owns no object of the gas-coin type:
  the resolver does not check the result of its filter, as it does for the oracle
  object, and the read of \<open>id\<close> from the missing first gas object throws a TypeError.
  No error is raised for the missing gas coin itself.
\<close>

theorem no_gas_coin_fails:
  assumes "bulkFetchObjects conn a = Inr objects"
      and "\<forall>obj \<in> set objects. objType obj \<noteq> GAS_COIN_TYPE"
  shows "getGasAndOracle e conn a = (Inl (TypeError ''id''), [BulkFetchObjects a])"
proof -
  from assms(2) have "filter (\<lambda>obj. objType obj = GAS_COIN_TYPE) objects = []"
    by (simp add: filter_empty_conv)
  with getGasAndOracle_fetched [OF assms(1), of e] getGasAndOracle_trace [of e conn a]
  show ?thesis by (simp add: prod_eq_iff)
qed

theorem no_gas_coin_fails_witness:
  "bulkFetchObjects (mock_Connection [oracle_object ''feed''] [] None) (Some ''0xc0ffee'')
     = Inr [oracle_object ''feed'']
   \<and> objType (oracle_object ''feed'') \<noteq> GAS_COIN_TYPE
   \<and> getGasAndOracle example_env (mock_Connection [oracle_object ''feed''] [] None)
        (Some ''0xc0ffee'')
       = (Inl (TypeError ''id''), [BulkFetchObjects (Some ''0xc0ffee'')])"
proof -
  have f: "bulkFetchObjects (mock_Connection [oracle_object ''feed''] [] None) (Some ''0xc0ffee'')
             = Inr [oracle_object ''feed'']"
    by (simp add: mock_Connection_def)
  have g: "\<forall>obj \<in> set [oracle_object ''feed'']. objType obj \<noteq> GAS_COIN_TYPE"
    by (simp add: oracle_object_def GAS_COIN_TYPE_def)
  from no_gas_coin_fails [OF f g, of example_env] f g show ?thesis by simp
qed

text \<open>
  C3, as the claim states it, fails: with two objects of the oracle-authority type (or
  none) and no gas coin, the resolver ends with the TypeError of the gas lookup, which
  comes first, and not with the \<open>Error\<close> of the oracle count.
\<close>

theorem oracle_count_without_gas_counterexample:
  "length (filter (\<lambda>obj. objType obj = oracle_object_identifier example_env)
             [oracle_object ''feed'', oracle_object ''beef'']) = 2
   \<and> bulkFetchObjects
         (mock_Connection [oracle_object ''feed'', oracle_object ''beef''] [] None)
         (Some ''0xc0ffee'')
       = Inr [oracle_object ''feed'', oracle_object ''beef'']
   \<and> fst (getGasAndOracle example_env
            (mock_Connection [oracle_object ''feed'', oracle_object ''beef''] [] None)
            (Some ''0xc0ffee''))
       = Inl (TypeError ''id'')
   \<and> fst (getGasAndOracle example_env (mock_Connection [] [] None) (Some ''0xc0ffee''))
       = Inl (TypeError ''id'')"
  by (simp add: getGasAndOracle_def mock_Connection_def oracle_object_def
        example_oracle_identifier)

text \<open>
  C3, amended. When the number of owned objects whose type equals
  \<open>package::module::adminIdentifier\<close> is not one, the resolver returns no pair of
  identifiers; and when the account owns a gas coin, the failure is the \<open>Error\<close>
  "Unexpected number of oracle object" (the specification's IntegrityError).
\<close>

theorem oracle_not_singleton_fails:
  assumes "bulkFetchObjects conn a = Inr objects"
      and "length (filter (\<lambda>obj. objType obj = oracle_object_identifier e) objects) \<noteq> 1"
  shows "((\<exists>obj \<in> set objects. objType obj = GAS_COIN_TYPE) \<longrightarrow>
            fst (getGasAndOracle e conn a) = Inl (Error ''Unexpected number of oracle object: ''))
         \<and> (\<forall>ids. fst (getGasAndOracle e conn a) \<noteq> Inr ids)"
proof -
  have "filter (\<lambda>obj. objType obj = GAS_COIN_TYPE) objects \<noteq> []"
    if "\<exists>obj \<in> set objects. objType obj = GAS_COIN_TYPE"
    using that by (simp add: filter_empty_conv)
  with getGasAndOracle_fetched [OF assms(1), of e] assms(2) show ?thesis
    by (auto split: list.splits)
qed

theorem oracle_not_singleton_fails_witness:
  "bulkFetchObjects
      (mock_Connection [gas_object ''a1'', oracle_object ''feed'', oracle_object ''beef''] [] None)
      (Some ''0xc0ffee'')
     = Inr [gas_object ''a1'', oracle_object ''feed'', oracle_object ''beef'']
   \<and> length (filter (\<lambda>obj. objType obj = oracle_object_identifier example_env)
               [gas_object ''a1'', oracle_object ''feed'', oracle_object ''beef'']) \<noteq> 1
   \<and> (\<exists>obj \<in> set [gas_object ''a1'', oracle_object ''feed'', oracle_object ''beef''].
         objType obj = GAS_COIN_TYPE)
   \<and> fst (getGasAndOracle example_env
            (mock_Connection [gas_object ''a1'', oracle_object ''feed'', oracle_object ''beef'']
               [] None)
            (Some ''0xc0ffee''))
       = Inl (Error ''Unexpected number of oracle object: '')"
proof -
  let ?objects = "[gas_object ''a1'', oracle_object ''feed'', oracle_object ''beef'']"
  have f: "bulkFetchObjects (mock_Connection ?objects [] None) (Some ''0xc0ffee'') = Inr ?objects"
    by (simp add: mock_Connection_def)
  have n: "length (filter (\<lambda>obj. objType obj = oracle_object_identifier example_env) ?objects)
             \<noteq> 1"
    by (simp add: example_oracle_identifier oracle_object_def gas_object_def)
  have g: "\<exists>obj \<in> set ?objects. objType obj = GAS_COIN_TYPE"
    by (simp add: gas_object_def GAS_COIN_TYPE_def)
  from oracle_not_singleton_fails [OF f n] f n g show ?thesis by blast
qed

text \<open>
  C9. \<open>formatObjectId\<close> puts \<open>0x\<close> before its argument, whatever the argument is; so
  it is not idempotent, and an id that already starts with \<open>0x\<close> comes back starting
  with \<open>0x0x\<close>. The resolver applies it to the raw \<open>id\<close> of the first gas coin and of
  the one oracle object, with no look at their form.
\<close>

theorem formatObjectId_not_idempotent:
  "formatObjectId i = ''0x'' @ i
   \<and> formatObjectId (formatObjectId i) \<noteq> formatObjectId i
   \<and> formatObjectId (''0x'' @ r) = ''0x0x'' @ r
   \<and> (bulkFetchObjects conn a = Inr objects
        \<and> fst (getGasAndOracle e conn a) = Inr (gasObjectId', oracleObjectId)
      \<longrightarrow> (\<exists>gas rest oracle.
             filter (\<lambda>obj. objType obj = GAS_COIN_TYPE) objects = gas # rest
             \<and> filter (\<lambda>obj. objType obj = oracle_object_identifier e) objects = [oracle]
             \<and> gasObjectId' = ''0x'' @ id' gas
             \<and> oracleObjectId = ''0x'' @ id' oracle))"
proof -
  have resolver: "\<exists>gas rest oracle.
             filter (\<lambda>obj. objType obj = GAS_COIN_TYPE) objects = gas # rest
             \<and> filter (\<lambda>obj. objType obj = oracle_object_identifier e) objects = [oracle]
             \<and> gasObjectId' = ''0x'' @ id' gas
             \<and> oracleObjectId = ''0x'' @ id' oracle"
    if f: "bulkFetchObjects conn a = Inr objects"
      and r: "fst (getGasAndOracle e conn a) = Inr (gasObjectId', oracleObjectId)"
  proof -
    let ?orcs = "filter (\<lambda>obj. objType obj = oracle_object_identifier e) objects"
    from getGasAndOracle_fetched [OF f, of e] r
    obtain gas rest where g: "filter (\<lambda>obj. objType obj = GAS_COIN_TYPE) objects = gas # rest"
      and l: "length ?orcs = 1"
      and v: "gasObjectId' = formatObjectId (id' gas)"
             "oracleObjectId = formatObjectId (id' (?orcs ! 0))"
      by (auto split: list.splits if_splits)
    from l obtain orc where o: "?orcs = [orc]"
      by (cases ?orcs) auto
    with g v show ?thesis by (simp add: formatObjectId_def)
  qed
  show ?thesis using resolver by (simp add: formatObjectId_def)
qed

theorem formatObjectId_not_idempotent_witness:
  "bulkFetchObjects (mock_Connection [gas_object ''0x11'', oracle_object ''0x22''] [] None)
      (Some ''0xc0ffee'')
     = Inr [gas_object ''0x11'', oracle_object ''0x22'']
   \<and> fst (getGasAndOracle example_env
            (mock_Connection [gas_object ''0x11'', oracle_object ''0x22''] [] None)
            (Some ''0xc0ffee''))
       = Inr (''0x0x11'', ''0x0x22'')
   \<and> formatObjectId ''0x11'' = ''0x0x11''
   \<and> formatObjectId (formatObjectId ''11'') \<noteq> formatObjectId ''11''"
proof -
  let ?objects = "[gas_object ''0x11'', oracle_object ''0x22'']"
  have f: "bulkFetchObjects (mock_Connection ?objects [] None) (Some ''0xc0ffee'') = Inr ?objects"
    by (simp add: mock_Connection_def)
  have r: "fst (getGasAndOracle example_env (mock_Connection ?objects [] None) (Some ''0xc0ffee''))
             = Inr (''0x0x11'', ''0x0x22'')"
    by (simp add: getGasAndOracle_def mock_Connection_def example_oracle_identifier
          oracle_object_def gas_object_def formatObjectId_def)
  from formatObjectId_not_idempotent
         [of "''0x11''" "''11''" "mock_Connection ?objects [] None" "Some ''0xc0ffee''" ?objects
             example_env "''0x0x11''" "''0x0x22''"] f r
  show ?thesis by (simp add: formatObjectId_def)
qed


subsection \<open>Unary plus on strings\<close>

lemmas literal_defs =
  StringToNumber_def StrWhiteSpaceChar_def NonDecimalIntegerLiteral_def StrDecimalLiteral_def
  StrUnsignedDecimalLiteral_def DecimalDigit_def ExponentPart_def digits_value_def
  digit_value_def digit_of_base_def Let_def

lemmas binary64_defs = binary64_def pow2_def bit_length.simps Let_def

text \<open>The conversion on some strings: integers, other literals, and what is no number.\<close>

lemma StringToNumber_examples:
  "StringToNumber ''8937'' = Num 8937"
  "StringToNumber ''101'' = Num 101"
  "StringToNumber ''0'' = Num 0"
  "StringToNumber ''-5'' = Num (- 5)"
  "StringToNumber ''1.5'' = Num (3 / 2)"
  "StringToNumber ''1e3'' = Num 1000"
  "StringToNumber ''0x1f'' = Num 31"
  "StringToNumber ''-0'' = NegZero"
  "StringToNumber ''Infinity'' = Infinity"
  "StringToNumber ''abc'' = NaN"
  "StringToNumber ''12px'' = NaN"
  "StringToNumber '' '' = Num 0"
  by (simp_all add: literal_defs) (simp_all add: binary64_defs)

text \<open>
  Beyond \<open>2 ^ 53\<close> not every integer is a Number: the conversion gives the nearest one
  that is.
\<close>

lemma StringToNumber_rounds:
  "StringToNumber ''9007199254740992'' = Num 9007199254740992"
  "StringToNumber ''9007199254740993'' = Num 9007199254740992"
  "StringToNumber ''9007199254740995'' = Num 9007199254740996"
  "StringToNumber ''1e23'' = Num 99999999999999991611392"
  by (simp_all add: literal_defs) (simp_all add: binary64_defs)

lemma StringToNumber_white_space:
  assumes "list_all StrWhiteSpaceChar s"
  shows "StringToNumber s = Num 0"
proof -
  from assms have d: "dropWhile StrWhiteSpaceChar s = []"
    by (simp add: list_all_iff)
  show ?thesis unfolding StringToNumber_def d by simp
qed

lemma trim_keeps_first:
  assumes "\<not> StrWhiteSpaceChar c"
  shows "\<exists>t'. rev (dropWhile StrWhiteSpaceChar (rev (dropWhile StrWhiteSpaceChar (c # t))))
           = c # t'"
proof -
  from assms have "dropWhile StrWhiteSpaceChar (rev t @ [c])
                     = dropWhile StrWhiteSpaceChar (rev t) @ [c]"
    by (simp add: dropWhile_append)
  with assms show ?thesis by simp
qed

lemma StrNumericLiteral_not_numeric:
  assumes "\<not> numeric_start c"
  shows "NonDecimalIntegerLiteral (c # t) = None" "StrDecimalLiteral (c # t) = NaN"
proof -
  from assms have d: "\<not> DecimalDigit c" and o: "c \<noteq> CHR ''+''" "c \<noteq> CHR ''-''"
    "c \<noteq> CHR ''.''" "c \<noteq> CHR ''I''"
    by (simp_all add: numeric_start_def)
  from d have "c \<noteq> CHR ''0''" by (auto simp: DecimalDigit_def)
  then show "NonDecimalIntegerLiteral (c # t) = None"
    by (cases t) (simp_all add: NonDecimalIntegerLiteral_def)
  from o(4) have "c # t \<noteq> ''Infinity''" by auto
  with d o show "StrDecimalLiteral (c # t) = NaN"
    by (simp add: StrDecimalLiteral_def StrUnsignedDecimalLiteral_def)
qed

lemma StringToNumber_not_numeric:
  assumes "\<not> StrWhiteSpaceChar c" and "\<not> numeric_start c"
  shows "StringToNumber (c # t) = NaN"
proof -
  from trim_keeps_first [OF assms(1), of t] obtain t' where
    "rev (dropWhile StrWhiteSpaceChar (rev (dropWhile StrWhiteSpaceChar (c # t)))) = c # t'"
    by blast
  with StrNumericLiteral_not_numeric [OF assms(2), of t'] show ?thesis
    by (simp add: StringToNumber_def)
qed

lemma unary_plus_string: "unary_plus (Some (JStr s)) = Inr (StringToNumber s)"
  by (simp add: unary_plus_def)


subsection \<open>The invocation and the orchestrator\<close>

lemma build_request_object:
  "build_request e a g orc (Some (JObj kvs)) =
     (case unary_plus (map_of kvs ''source_token_id'') of
        Inl err \<Rightarrow> Inl err
      | Inr n \<Rightarrow>
          Inr \<lparr>args = [Some (JStr orc),
                       map_of kvs ''destination_sui_address'',
                       map_of kvs ''source_contract_address'',
                       Some (JNum n),
                       Some (JStr ''BoredApeYachtClub''),
                       Some (JStr ''ipfs://abc'')],
               function' = ORACLE_CONTRACT_ENTRY_FUNCTION e,
               gasBudget = 2000,
               gasObjectId = g,
               module' = snd (getPackageAndModule e),
               packageObjectId = fst (getPackageAndModule e),
               sender = a\<rparr>)"
  by (simp add: build_request_def DEFAULT_GAS_BUDGET_def split: prod.splits sum.splits)

lemma executeMoveCall_unresolved:
  assumes "getGasAndOracle e conn (ORACLE_ADDRESS e) = (Inl err, io)"
  shows "executeMoveCall e conn claimInfo = (Inl err, io)"
  using assms by (simp add: executeMoveCall_def)

lemma executeMoveCall_resolved:
  assumes "getGasAndOracle e conn (ORACLE_ADDRESS e) = (Inr (g, orc), io)"
      and "build_request e (ORACLE_ADDRESS e) g orc claimInfo = Inr request"
  shows "executeMoveCall e conn claimInfo =
           (case callMoveFunction conn request of
              Inl err \<Rightarrow> Inl err
            | Inr result \<Rightarrow>
                if length (created_objects result) \<noteq> 1
                then Inl (Error ''Unexpected number of objects created: '')
                else Inr (id' (created_objects result ! 0)),
            io @ [CallMoveFunction request])"
  using assms by (simp add: executeMoveCall_def Let_def split: sum.splits)

lemma claim_parsed:
  assumes "JSON_parse (wallet_message rq) = Some data"
      and "parseClaimInfo data = Inr (Some (JObj kvs))"
  shows "claim JSON_parse new_Connection e rq =
           (case executeMoveCall e (new_Connection (SUI_GATEWAY_ENDPOINT e)) (Some (JObj kvs)) of
              (Inl err, io) \<Rightarrow> (Inl err, NewConnection (SUI_GATEWAY_ENDPOINT e) # io)
            | (Inr created_id, io) \<Rightarrow>
                (Inr \<lparr>source_chain = map_of kvs ''source_chain'',
                      source_contract_address = map_of kvs ''source_contract_address'',
                      source_token_id = map_of kvs ''source_token_id'',
                      sui_explorer_link = EXPLORER_LINK\<rparr>,
                 NewConnection (SUI_GATEWAY_ENDPOINT e) # io))"
  using assms by (simp add: claim_def Let_def EXPLORER_LINK_def split: prod.splits sum.splits)

lemma claim_not_parsed:
  "JSON_parse (wallet_message rq) = None \<Longrightarrow>
     claim JSON_parse new_Connection e rq = (Inl SyntaxError, [])"
  "JSON_parse (wallet_message rq) = Some data \<Longrightarrow> parseClaimInfo data = Inl err \<Longrightarrow>
     claim JSON_parse new_Connection e rq = (Inl err, [])"
  by (simp_all add: claim_def)

lemma example_parseClaimInfo:
  "t \<noteq> [] \<Longrightarrow> parseClaimInfo (example_data t) = Inr (Some (example_message t))"
  by (simp add: parseClaimInfo_def isAirdropClaimInfo_def example_data_def example_message_def)

lemma example_getGasAndOracle:
  "getGasAndOracle example_env
      (mock_Connection [gas_object ''a1'', oracle_object ''feed''] created endpoint)
      (Some ''0xc0ffee'')
     = (Inr (''0xa1'', ''0xfeed''), [BulkFetchObjects (Some ''0xc0ffee'')])"
  by (simp add: getGasAndOracle_def mock_Connection_def example_oracle_identifier
        oracle_object_def gas_object_def formatObjectId_def)

lemma example_ORACLE_ADDRESS: "ORACLE_ADDRESS example_env = Some ''0xc0ffee''"
  by (simp add: example_env_def)

subsection \<open>What a finished claim went through\<close>

lemma executeMoveCall_Inr:
  assumes "fst (executeMoveCall e conn claimInfo) = Inr created_id"
  shows "\<exists>g orc io request result.
           getGasAndOracle e conn (ORACLE_ADDRESS e) = (Inr (g, orc), io)
         \<and> build_request e (ORACLE_ADDRESS e) g orc claimInfo = Inr request
         \<and> callMoveFunction conn request = Inr result
         \<and> length (created_objects result) = 1
         \<and> created_id = id' (created_objects result ! 0)
         \<and> snd (executeMoveCall e conn claimInfo) = io @ [CallMoveFunction request]"
proof (cases "getGasAndOracle e conn (ORACLE_ADDRESS e)")
  case (Pair r io)
  show ?thesis
  proof (cases r)
    case (Inl err)
    with Pair assms show ?thesis by (simp add: executeMoveCall_unresolved)
  next
    case (Inr ids)
    obtain g orc where ids: "ids = (g, orc)" by (cases ids)
    with Pair Inr have res: "getGasAndOracle e conn (ORACLE_ADDRESS e) = (Inr (g, orc), io)"
      by simp
    show ?thesis
    proof (cases "build_request e (ORACLE_ADDRESS e) g orc claimInfo")
      case (Inl err)
      with res assms show ?thesis by (simp add: executeMoveCall_def)
    next
      case (Inr request)
      from executeMoveCall_resolved [OF res Inr] assms res Inr show ?thesis
        by (auto split: sum.splits if_splits)
    qed
  qed
qed

lemma executeMoveCall_submitted:
  assumes "CallMoveFunction request \<in> set (snd (executeMoveCall e conn claimInfo))"
  shows "\<exists>g orc. build_request e (ORACLE_ADDRESS e) g orc claimInfo = Inr request"
proof (cases "getGasAndOracle e conn (ORACLE_ADDRESS e)")
  case (Pair r io)
  with getGasAndOracle_trace [of e conn "ORACLE_ADDRESS e"]
  have io: "io = [BulkFetchObjects (ORACLE_ADDRESS e)]" by simp
  show ?thesis
  proof (cases r)
    case (Inl err)
    with Pair io assms show ?thesis by (simp add: executeMoveCall_unresolved)
  next
    case (Inr ids)
    obtain g orc where ids: "ids = (g, orc)" by (cases ids)
    with Pair Inr have res: "getGasAndOracle e conn (ORACLE_ADDRESS e) = (Inr (g, orc), io)"
      by simp
    show ?thesis
    proof (cases "build_request e (ORACLE_ADDRESS e) g orc claimInfo")
      case (Inl err)
      with res io assms show ?thesis by (simp add: executeMoveCall_def)
    next
      case (Inr request')
      from executeMoveCall_resolved [OF res Inr] assms io have "request = request'"
        by simp
      with Inr show ?thesis by blast
    qed
  qed
qed

lemma claim_Inr:
  assumes "fst (claim JSON_parse new_Connection e rq) = Inr resp"
  shows "\<exists>data kvs created_id.
           JSON_parse (wallet_message rq) = Some data
         \<and> parseClaimInfo data = Inr (Some (JObj kvs))
         \<and> fst (executeMoveCall e (new_Connection (SUI_GATEWAY_ENDPOINT e)) (Some (JObj kvs)))
             = Inr created_id
         \<and> snd (claim JSON_parse new_Connection e rq)
             = NewConnection (SUI_GATEWAY_ENDPOINT e)
               # snd (executeMoveCall e (new_Connection (SUI_GATEWAY_ENDPOINT e)) (Some (JObj kvs)))
         \<and> resp = \<lparr>source_chain = map_of kvs ''source_chain'',
                    source_contract_address = map_of kvs ''source_contract_address'',
                    source_token_id = map_of kvs ''source_token_id'',
                    sui_explorer_link = EXPLORER_LINK\<rparr>"
proof (cases "JSON_parse (wallet_message rq)")
  case None
  with assms show ?thesis by (simp add: claim_not_parsed)
next
  case (Some data)
  show ?thesis
  proof (cases "parseClaimInfo data")
    case (Inl err)
    with Some assms show ?thesis by (simp add: claim_not_parsed)
  next
    case (Inr claimInfo)
    from parseClaimInfo_Inr [OF Inr] obtain kvs where k: "claimInfo = Some (JObj kvs)"
      by blast
    from Inr k have p: "parseClaimInfo data = Inr (Some (JObj kvs))" by simp
    from claim_parsed [where JSON_parse = JSON_parse and rq = rq and e = e
           and new_Connection = new_Connection, OF Some p] assms Some p show ?thesis
      by (auto split: prod.splits sum.splits)
  qed
qed

lemma claim_submitted:
  assumes "CallMoveFunction request \<in> set (snd (claim JSON_parse new_Connection e rq))"
  shows "\<exists>g orc claimInfo. build_request e (ORACLE_ADDRESS e) g orc claimInfo = Inr request"
proof (cases "JSON_parse (wallet_message rq)")
  case None
  with assms show ?thesis by (simp add: claim_not_parsed)
next
  case (Some data)
  show ?thesis
  proof (cases "parseClaimInfo data")
    case (Inl err)
    with Some assms show ?thesis by (simp add: claim_not_parsed)
  next
    case (Inr claimInfo)
    from parseClaimInfo_Inr [OF Inr] obtain kvs where k: "claimInfo = Some (JObj kvs)"
      by blast
    from Inr k have p: "parseClaimInfo data = Inr (Some (JObj kvs))" by simp
    from claim_parsed [where JSON_parse = JSON_parse and rq = rq and e = e
           and new_Connection = new_Connection, OF Some p] assms
    have "CallMoveFunction request
            \<in> set (snd (executeMoveCall e (new_Connection (SUI_GATEWAY_ENDPOINT e))
                          (Some (JObj kvs))))"
      by (auto split: prod.splits sum.splits)
    from executeMoveCall_submitted [OF this] show ?thesis by blast
  qed
qed

lemma build_request_budget_sender:
  assumes "build_request e a g orc claimInfo = Inr request"
  shows "gasBudget request = 2000 \<and> sender request = a"
  using assms
  by (auto simp: build_request_def DEFAULT_GAS_BUDGET_def Let_def split: sum.splits prod.splits)

subsection \<open>The budget and the sender of the invocation\<close>

lemma example_JSON_parse_8937:
  "example_JSON_parse (example_text ''8937'') = Some (example_data ''8937'')"
  by (simp add: example_JSON_parse_def)

lemma example_SUI_GATEWAY_ENDPOINT:
  "SUI_GATEWAY_ENDPOINT example_env = Some ''http://127.0.0.1:5000''"
  by (simp add: example_env_def)

lemma example_executeMoveCall:
  "executeMoveCall example_env
      (mock_Connection [gas_object ''a1'', oracle_object ''feed''] created endpoint)
      (Some (example_message t))
     = (if length created \<noteq> 1 then Inl (Error ''Unexpected number of objects created: '')
        else Inr (id' (created ! 0)),
        [BulkFetchObjects (Some ''0xc0ffee''),
         CallMoveFunction
           \<lparr>args = [Some (JStr ''0xfeed''),
                    Some (JStr ''0xa5e6dbcf33730ace6ec8b400ff4788c1f150ff7e''),
                    Some (JStr ''0xBC4CA0EdA7647A8aB7C2061c2E118A18a936f13D''),
                    Some (JNum (StringToNumber t)),
                    Some (JStr ''BoredApeYachtClub''),
                    Some (JStr ''ipfs://abc'')],
            function' = Some ''claim'',
            gasBudget = 2000,
            gasObjectId = ''0xa1'',
            module' = ''CrossChainAirdrop'',
            packageObjectId = ''0x2'',
            sender = Some ''0xc0ffee''\<rparr>])"
proof -
  let ?conn = "mock_Connection [gas_object ''a1'', oracle_object ''feed''] created endpoint"
  have g: "getGasAndOracle example_env ?conn (ORACLE_ADDRESS example_env)
             = (Inr (''0xa1'', ''0xfeed''), [BulkFetchObjects (Some ''0xc0ffee'')])"
    by (simp add: example_ORACLE_ADDRESS example_getGasAndOracle)
  have b: "build_request example_env (ORACLE_ADDRESS example_env) ''0xa1'' ''0xfeed''
             (Some (example_message t))
           = Inr \<lparr>args = [Some (JStr ''0xfeed''),
                    Some (JStr ''0xa5e6dbcf33730ace6ec8b400ff4788c1f150ff7e''),
                    Some (JStr ''0xBC4CA0EdA7647A8aB7C2061c2E118A18a936f13D''),
                    Some (JNum (StringToNumber t)),
                    Some (JStr ''BoredApeYachtClub''),
                    Some (JStr ''ipfs://abc'')],
            function' = Some ''claim'',
            gasBudget = 2000,
            gasObjectId = ''0xa1'',
            module' = ''CrossChainAirdrop'',
            packageObjectId = ''0x2'',
            sender = Some ''0xc0ffee''\<rparr>"
    by (simp add: example_message_def build_request_object unary_plus_def
          getPackageAndModule_def or_default_def example_env_def)
  show ?thesis
    unfolding executeMoveCall_resolved [OF g b]
    by (simp add: mock_Connection_def)
qed

text \<open>
  C8. Every request that a claim hands to \<open>callMoveFunction\<close> has the gas budget 2000,
  the value of \<open>DEFAULT_GAS_BUDGET\<close>, and as its sender the \<open>ORACLE_ADDRESS\<close> of the
  configuration, whatever the claim's own addresses are.
\<close>

theorem invocation_budget_and_sender:
  assumes "CallMoveFunction request \<in> set (snd (claim JSON_parse new_Connection e rq))"
  shows "gasBudget request = DEFAULT_GAS_BUDGET \<and> DEFAULT_GAS_BUDGET = 2000
         \<and> sender request = ORACLE_ADDRESS e"
proof -
  from claim_submitted [OF assms] obtain g orc claimInfo
    where "build_request e (ORACLE_ADDRESS e) g orc claimInfo = Inr request"
    by blast
  from build_request_budget_sender [OF this] show ?thesis
    by (simp add: DEFAULT_GAS_BUDGET_def)
qed

lemma example_claim:
  assumes "example_JSON_parse (example_text t) = Some (example_data t)" and "t \<noteq> []"
  shows "claim example_JSON_parse
           (mock_Connection [gas_object ''a1'', oracle_object ''feed''] created)
           example_env (example_request (example_text t))
         = (if length created \<noteq> 1 then Inl (Error ''Unexpected number of objects created: '')
            else Inr \<lparr>source_chain = Some (JStr ''ethereum''),
                      source_contract_address =
                        Some (JStr ''0xBC4CA0EdA7647A8aB7C2061c2E118A18a936f13D''),
                      source_token_id = Some (JStr t),
                      sui_explorer_link = EXPLORER_LINK\<rparr>,
            [NewConnection (Some ''http://127.0.0.1:5000''),
             BulkFetchObjects (Some ''0xc0ffee''),
             CallMoveFunction
               \<lparr>args = [Some (JStr ''0xfeed''),
                        Some (JStr ''0xa5e6dbcf33730ace6ec8b400ff4788c1f150ff7e''),
                        Some (JStr ''0xBC4CA0EdA7647A8aB7C2061c2E118A18a936f13D''),
                        Some (JNum (StringToNumber t)),
                        Some (JStr ''BoredApeYachtClub''),
                        Some (JStr ''ipfs://abc'')],
                function' = Some ''claim'',
                gasBudget = 2000,
                gasObjectId = ''0xa1'',
                module' = ''CrossChainAirdrop'',
                packageObjectId = ''0x2'',
                sender = Some ''0xc0ffee''\<rparr>])"
proof -
  have w: "example_JSON_parse (wallet_message (example_request (example_text t)))
             = Some (example_data t)"
    using assms(1) by (simp add: example_request_def)
  have p: "parseClaimInfo (example_data t)
             = Inr (Some (JObj
                 [(''source_chain'', JStr ''ethereum''),
                  (''source_contract_address'', JStr ''0xBC4CA0EdA7647A8aB7C2061c2E118A18a936f13D''),
                  (''source_token_id'', JStr t),
                  (''source_owner_address'', JStr ''0x09dbc4a902199bbe7f7ec29b3714731786f2e878''),
                  (''destination_sui_address'',
                   JStr ''0xa5e6dbcf33730ace6ec8b400ff4788c1f150ff7e'')]))"
    using example_parseClaimInfo [OF assms(2)] by (simp add: example_message_def)
  show ?thesis
    unfolding claim_parsed [where JSON_parse = example_JSON_parse and e = example_env, OF w p]
    unfolding example_message_def [symmetric] example_executeMoveCall
    by (simp add: example_SUI_GATEWAY_ENDPOINT example_message_def)
qed

theorem invocation_budget_and_sender_witness:
  "CallMoveFunction
      \<lparr>args = [Some (JStr ''0xfeed''),
               Some (JStr ''0xa5e6dbcf33730ace6ec8b400ff4788c1f150ff7e''),
               Some (JStr ''0xBC4CA0EdA7647A8aB7C2061c2E118A18a936f13D''),
               Some (JNum (StringToNumber ''8937'')),
               Some (JStr ''BoredApeYachtClub''),
               Some (JStr ''ipfs://abc'')],
       function' = Some ''claim'',
       gasBudget = 2000,
       gasObjectId = ''0xa1'',
       module' = ''CrossChainAirdrop'',
       packageObjectId = ''0x2'',
       sender = Some ''0xc0ffee''\<rparr>
     \<in> set (snd (claim example_JSON_parse
                   (mock_Connection [gas_object ''a1'', oracle_object ''feed'']
                      [\<lparr>id' = ''7bc8''\<rparr>])
                   example_env (example_request (example_text ''8937''))))
   \<and> DEFAULT_GAS_BUDGET = 2000
   \<and> ORACLE_ADDRESS example_env = Some ''0xc0ffee''"
proof -
  let ?request = "\<lparr>args = [Some (JStr ''0xfeed''),
               Some (JStr ''0xa5e6dbcf33730ace6ec8b400ff4788c1f150ff7e''),
               Some (JStr ''0xBC4CA0EdA7647A8aB7C2061c2E118A18a936f13D''),
               Some (JNum (StringToNumber ''8937'')),
               Some (JStr ''BoredApeYachtClub''),
               Some (JStr ''ipfs://abc'')],
       function' = Some ''claim'',
       gasBudget = 2000,
       gasObjectId = ''0xa1'',
       module' = ''CrossChainAirdrop'',
       packageObjectId = ''0x2'',
       sender = Some ''0xc0ffee''\<rparr>"
  have m: "CallMoveFunction ?request
     \<in> set (snd (claim example_JSON_parse
                   (mock_Connection [gas_object ''a1'', oracle_object ''feed'']
                      [\<lparr>id' = ''7bc8''\<rparr>])
                   example_env (example_request (example_text ''8937''))))"
    by (simp add: example_claim [OF example_JSON_parse_8937])
  from invocation_budget_and_sender [OF m] m show ?thesis by simp
qed

subsection \<open>The claims about the outcome\<close>

text \<open>
  C5. When the move call answers with a created-objects list whose length is not one,
  the claim ends with the \<open>Error\<close> "Unexpected number of objects created" (the
  specification's IntegrityError) and with no response; and a claim that returns a
  response has submitted a request that was answered with exactly one created object.
\<close>

theorem created_count_must_be_one:
  "(JSON_parse (wallet_message rq) = Some data
      \<and> parseClaimInfo data = Inr claimInfo
      \<and> getGasAndOracle e (new_Connection (SUI_GATEWAY_ENDPOINT e)) (ORACLE_ADDRESS e)
          = (Inr (g, orc), io)
      \<and> build_request e (ORACLE_ADDRESS e) g orc claimInfo = Inr request
      \<and> callMoveFunction (new_Connection (SUI_GATEWAY_ENDPOINT e)) request = Inr result
      \<and> length (created_objects result) \<noteq> 1
    \<longrightarrow> fst (claim JSON_parse new_Connection e rq)
          = Inl (Error ''Unexpected number of objects created: ''))
   \<and> (fst (claim JSON_parse new_Connection e rq) = Inr resp
    \<longrightarrow> (\<exists>request' result'.
            CallMoveFunction request' \<in> set (snd (claim JSON_parse new_Connection e rq))
          \<and> callMoveFunction (new_Connection (SUI_GATEWAY_ENDPOINT e)) request' = Inr result'
          \<and> length (created_objects result') = 1))"
proof (intro conjI impI)
  assume a: "JSON_parse (wallet_message rq) = Some data
      \<and> parseClaimInfo data = Inr claimInfo
      \<and> getGasAndOracle e (new_Connection (SUI_GATEWAY_ENDPOINT e)) (ORACLE_ADDRESS e)
          = (Inr (g, orc), io)
      \<and> build_request e (ORACLE_ADDRESS e) g orc claimInfo = Inr request
      \<and> callMoveFunction (new_Connection (SUI_GATEWAY_ENDPOINT e)) request = Inr result
      \<and> length (created_objects result) \<noteq> 1"
  then have j: "JSON_parse (wallet_message rq) = Some data"
    and p: "parseClaimInfo data = Inr claimInfo"
    and r: "getGasAndOracle e (new_Connection (SUI_GATEWAY_ENDPOINT e)) (ORACLE_ADDRESS e)
              = (Inr (g, orc), io)"
    and b: "build_request e (ORACLE_ADDRESS e) g orc claimInfo = Inr request"
    and c: "callMoveFunction (new_Connection (SUI_GATEWAY_ENDPOINT e)) request = Inr result"
    and l: "length (created_objects result) \<noteq> 1"
    by simp_all
  from parseClaimInfo_Inr [OF p] obtain kvs where k: "claimInfo = Some (JObj kvs)"
    by blast
  from p k have p': "parseClaimInfo data = Inr (Some (JObj kvs))" by simp
  from executeMoveCall_resolved [OF r b] c l k
  have "fst (executeMoveCall e (new_Connection (SUI_GATEWAY_ENDPOINT e)) (Some (JObj kvs)))
          = Inl (Error ''Unexpected number of objects created: '')"
    by simp
  with claim_parsed [where JSON_parse = JSON_parse and rq = rq and e = e
         and new_Connection = new_Connection, OF j p']
  show "fst (claim JSON_parse new_Connection e rq)
          = Inl (Error ''Unexpected number of objects created: '')"
    by (auto split: prod.splits sum.splits)
next
  assume "fst (claim JSON_parse new_Connection e rq) = Inr resp"
  from claim_Inr [OF this] obtain kvs created_id where
    x: "fst (executeMoveCall e (new_Connection (SUI_GATEWAY_ENDPOINT e)) (Some (JObj kvs)))
          = Inr created_id"
    and t: "snd (claim JSON_parse new_Connection e rq)
             = NewConnection (SUI_GATEWAY_ENDPOINT e)
               # snd (executeMoveCall e (new_Connection (SUI_GATEWAY_ENDPOINT e)) (Some (JObj kvs)))"
    by blast
  from executeMoveCall_Inr [OF x] obtain io' request' result' where
    "callMoveFunction (new_Connection (SUI_GATEWAY_ENDPOINT e)) request' = Inr result'"
    "length (created_objects result') = 1"
    "snd (executeMoveCall e (new_Connection (SUI_GATEWAY_ENDPOINT e)) (Some (JObj kvs)))
       = io' @ [CallMoveFunction request']"
    by blast
  with t show "\<exists>request' result'.
            CallMoveFunction request' \<in> set (snd (claim JSON_parse new_Connection e rq))
          \<and> callMoveFunction (new_Connection (SUI_GATEWAY_ENDPOINT e)) request' = Inr result'
          \<and> length (created_objects result') = 1"
    by auto
qed

text \<open>
  C6. The response of a claim that completes carries, as \<open>source_chain\<close>,
  \<open>source_contract_address\<close> and \<open>source_token_id\<close>, the values of those fields of the
  parsed claim.
\<close>

theorem response_echoes_claim:
  assumes "fst (claim JSON_parse new_Connection e rq) = Inr resp"
  shows "\<exists>data claimInfo.
           JSON_parse (wallet_message rq) = Some data
         \<and> parseClaimInfo data = Inr claimInfo
         \<and> get_prop claimInfo ''source_chain'' = Inr (source_chain resp)
         \<and> get_prop claimInfo ''source_contract_address'' = Inr (source_contract_address resp)
         \<and> get_prop claimInfo ''source_token_id'' = Inr (source_token_id resp)"
proof -
  from claim_Inr [OF assms] obtain data kvs where
    "JSON_parse (wallet_message rq) = Some data"
    "parseClaimInfo data = Inr (Some (JObj kvs))"
    "resp = \<lparr>source_chain = map_of kvs ''source_chain'',
             source_contract_address = map_of kvs ''source_contract_address'',
             source_token_id = map_of kvs ''source_token_id'',
             sui_explorer_link = EXPLORER_LINK\<rparr>"
    by blast
  then show ?thesis by simp
qed

text \<open>
  C10. The \<open>sui_explorer_link\<close> of every response is the one constant string of the
  source; two claims that complete, whatever they created and under whatever
  configuration, get the same link.
\<close>

theorem explorer_link_is_constant:
  assumes "fst (claim JSON_parse new_Connection e rq) = Inr resp"
      and "fst (claim JSON_parse' new_Connection' e' rq') = Inr resp'"
  shows "sui_explorer_link resp =
           ''https://djgd7fpxio1yh.cloudfront.net/objects/7bc832ec31709638cd8d9323e90edf332gff4389''
         \<and> sui_explorer_link resp' = sui_explorer_link resp"
proof -
  from claim_Inr [OF assms(1)] have "sui_explorer_link resp = EXPLORER_LINK" by auto
  moreover from claim_Inr [OF assms(2)] have "sui_explorer_link resp' = EXPLORER_LINK" by auto
  ultimately show ?thesis by (simp add: EXPLORER_LINK_def)
qed


subsection \<open>The examples, run\<close>

lemma example_JSON_parse_texts:
  "example_JSON_parse (example_text ''abc'') = Some (example_data ''abc'')"
  "example_JSON_parse (example_text '' '') = Some (example_data '' '')"
  "example_JSON_parse (example_text []) = Some (example_data [])"
  "example_JSON_parse ''{}'' = Some (JObj [])"
  "example_JSON_parse ''{'' = None"
  by (simp_all add: example_JSON_parse_def example_text_def)

lemma example_build_request:
  "build_request example_env (ORACLE_ADDRESS example_env) ''0xa1'' ''0xfeed''
     (Some (example_message t))
   = Inr \<lparr>args = [Some (JStr ''0xfeed''),
                   Some (JStr ''0xa5e6dbcf33730ace6ec8b400ff4788c1f150ff7e''),
                   Some (JStr ''0xBC4CA0EdA7647A8aB7C2061c2E118A18a936f13D''),
                   Some (JNum (StringToNumber t)),
                   Some (JStr ''BoredApeYachtClub''),
                   Some (JStr ''ipfs://abc'')],
           function' = Some ''claim'',
           gasBudget = 2000,
           gasObjectId = ''0xa1'',
           module' = ''CrossChainAirdrop'',
           packageObjectId = ''0x2'',
           sender = Some ''0xc0ffee''\<rparr>"
  by (simp add: example_message_def build_request_object unary_plus_def
        getPackageAndModule_def or_default_def example_env_def)

theorem created_count_must_be_one_witness:
  "fst (claim example_JSON_parse
          (mock_Connection [gas_object ''a1'', oracle_object ''feed''] [])
          example_env (example_request (example_text ''8937'')))
     = Inl (Error ''Unexpected number of objects created: '')
   \<and> fst (claim example_JSON_parse
            (mock_Connection [gas_object ''a1'', oracle_object ''feed'']
               [\<lparr>id' = ''7bc8''\<rparr>, \<lparr>id' = ''9f00''\<rparr>])
            example_env (example_request (example_text ''8937'')))
       = Inl (Error ''Unexpected number of objects created: '')
   \<and> fst (claim example_JSON_parse
            (mock_Connection [gas_object ''a1'', oracle_object ''feed''] [\<lparr>id' = ''7bc8''\<rparr>])
            example_env (example_request (example_text ''8937'')))
       = Inr \<lparr>source_chain = Some (JStr ''ethereum''),
               source_contract_address =
                 Some (JStr ''0xBC4CA0EdA7647A8aB7C2061c2E118A18a936f13D''),
               source_token_id = Some (JStr ''8937''),
               sui_explorer_link = EXPLORER_LINK\<rparr>
   \<and> (\<exists>request' result'.
         CallMoveFunction request'
           \<in> set (snd (claim example_JSON_parse
                         (mock_Connection [gas_object ''a1'', oracle_object ''feed'']
                            [\<lparr>id' = ''7bc8''\<rparr>])
                         example_env (example_request (example_text ''8937''))))
       \<and> callMoveFunction
            (mock_Connection [gas_object ''a1'', oracle_object ''feed''] [\<lparr>id' = ''7bc8''\<rparr>]
               (SUI_GATEWAY_ENDPOINT example_env))
            request' = Inr result'
       \<and> length (created_objects result') = 1)"
proof -
  let ?objects = "[gas_object ''a1'', oracle_object ''feed'']"
  let ?rq = "example_request (example_text ''8937'')"
  let ?request = "\<lparr>args = [Some (JStr ''0xfeed''),
                   Some (JStr ''0xa5e6dbcf33730ace6ec8b400ff4788c1f150ff7e''),
                   Some (JStr ''0xBC4CA0EdA7647A8aB7C2061c2E118A18a936f13D''),
                   Some (JNum (StringToNumber ''8937'')),
                   Some (JStr ''BoredApeYachtClub''),
                   Some (JStr ''ipfs://abc'')],
           function' = Some ''claim'',
           gasBudget = 2000,
           gasObjectId = ''0xa1'',
           module' = ''CrossChainAirdrop'',
           packageObjectId = ''0x2'',
           sender = Some ''0xc0ffee''\<rparr>"
  have j: "example_JSON_parse (wallet_message ?rq) = Some (example_data ''8937'')"
    by (simp add: example_request_def example_JSON_parse_8937)
  have p: "parseClaimInfo (example_data ''8937'') = Inr (Some (example_message ''8937''))"
    by (simp add: example_parseClaimInfo)
  have r: "getGasAndOracle example_env
             (mock_Connection ?objects created (SUI_GATEWAY_ENDPOINT example_env))
             (ORACLE_ADDRESS example_env)
           = (Inr (''0xa1'', ''0xfeed''), [BulkFetchObjects (Some ''0xc0ffee'')])" for created
    by (simp add: example_ORACLE_ADDRESS example_getGasAndOracle)
  have c: "callMoveFunction
             (mock_Connection ?objects created (SUI_GATEWAY_ENDPOINT example_env)) ?request
           = Inr \<lparr>created_objects = created\<rparr>" for created
    by (simp add: mock_Connection_def)
  have b: "build_request example_env (ORACLE_ADDRESS example_env) ''0xa1'' ''0xfeed''
             (Some (example_message ''8937'')) = Inr ?request"
    by (rule example_build_request)
  have zero: "fst (claim example_JSON_parse (mock_Connection ?objects []) example_env ?rq)
                = Inl (Error ''Unexpected number of objects created: '')"
    using created_count_must_be_one
            [where JSON_parse = example_JSON_parse and rq = ?rq
               and data = "example_data ''8937''"
               and claimInfo = "Some (example_message ''8937'')"
               and e = example_env and new_Connection = "mock_Connection ?objects []"
               and g = "''0xa1''" and orc = "''0xfeed''"
               and io = "[BulkFetchObjects (Some ''0xc0ffee'')]"
               and request = ?request and result = "\<lparr>created_objects = []\<rparr>"]
          j p r [of "[]"] b c [of "[]"]
    by simp
  have two: "fst (claim example_JSON_parse
                    (mock_Connection ?objects [\<lparr>id' = ''7bc8''\<rparr>, \<lparr>id' = ''9f00''\<rparr>])
                    example_env ?rq)
                = Inl (Error ''Unexpected number of objects created: '')"
    using created_count_must_be_one
            [where JSON_parse = example_JSON_parse and rq = ?rq
               and data = "example_data ''8937''"
               and claimInfo = "Some (example_message ''8937'')"
               and e = example_env
               and new_Connection =
                 "mock_Connection ?objects [\<lparr>id' = ''7bc8''\<rparr>, \<lparr>id' = ''9f00''\<rparr>]"
               and g = "''0xa1''" and orc = "''0xfeed''"
               and io = "[BulkFetchObjects (Some ''0xc0ffee'')]"
               and request = ?request
               and result = "\<lparr>created_objects = [\<lparr>id' = ''7bc8''\<rparr>, \<lparr>id' = ''9f00''\<rparr>]\<rparr>"]
          j p r [of "[\<lparr>id' = ''7bc8''\<rparr>, \<lparr>id' = ''9f00''\<rparr>]"] b
          c [of "[\<lparr>id' = ''7bc8''\<rparr>, \<lparr>id' = ''9f00''\<rparr>]"]
    by simp
  have one: "fst (claim example_JSON_parse (mock_Connection ?objects [\<lparr>id' = ''7bc8''\<rparr>])
                    example_env ?rq)
               = Inr \<lparr>source_chain = Some (JStr ''ethereum''),
                       source_contract_address =
                         Some (JStr ''0xBC4CA0EdA7647A8aB7C2061c2E118A18a936f13D''),
                       source_token_id = Some (JStr ''8937''),
                       sui_explorer_link = EXPLORER_LINK\<rparr>"
    by (simp add: example_claim [OF example_JSON_parse_8937])
  from created_count_must_be_one
         [where JSON_parse = example_JSON_parse and rq = ?rq and e = example_env
            and new_Connection = "mock_Connection ?objects [\<lparr>id' = ''7bc8''\<rparr>]"]
       one
  have "\<exists>request' result'.
         CallMoveFunction request'
           \<in> set (snd (claim example_JSON_parse (mock_Connection ?objects [\<lparr>id' = ''7bc8''\<rparr>])
                         example_env ?rq))
       \<and> callMoveFunction
            (mock_Connection ?objects [\<lparr>id' = ''7bc8''\<rparr>] (SUI_GATEWAY_ENDPOINT example_env))
            request' = Inr result'
       \<and> length (created_objects result') = 1"
    by blast
  with zero two one show ?thesis by blast
qed

theorem response_echoes_claim_witness:
  "fst (claim example_JSON_parse
          (mock_Connection [gas_object ''a1'', oracle_object ''feed''] [\<lparr>id' = ''7bc8''\<rparr>])
          example_env (example_request (example_text ''8937'')))
     = Inr \<lparr>source_chain = Some (JStr ''ethereum''),
             source_contract_address =
               Some (JStr ''0xBC4CA0EdA7647A8aB7C2061c2E118A18a936f13D''),
             source_token_id = Some (JStr ''8937''),
             sui_explorer_link = EXPLORER_LINK\<rparr>
   \<and> (\<exists>data claimInfo.
         example_JSON_parse (wallet_message (example_request (example_text ''8937''))) = Some data
       \<and> parseClaimInfo data = Inr claimInfo
       \<and> get_prop claimInfo ''source_chain'' = Inr (Some (JStr ''ethereum''))
       \<and> get_prop claimInfo ''source_contract_address''
           = Inr (Some (JStr ''0xBC4CA0EdA7647A8aB7C2061c2E118A18a936f13D''))
       \<and> get_prop claimInfo ''source_token_id'' = Inr (Some (JStr ''8937'')))"
proof -
  have one: "fst (claim example_JSON_parse
          (mock_Connection [gas_object ''a1'', oracle_object ''feed''] [\<lparr>id' = ''7bc8''\<rparr>])
          example_env (example_request (example_text ''8937'')))
     = Inr \<lparr>source_chain = Some (JStr ''ethereum''),
             source_contract_address =
               Some (JStr ''0xBC4CA0EdA7647A8aB7C2061c2E118A18a936f13D''),
             source_token_id = Some (JStr ''8937''),
             sui_explorer_link = EXPLORER_LINK\<rparr>"
    by (simp add: example_claim [OF example_JSON_parse_8937])
  from response_echoes_claim [OF one] one show ?thesis by simp
qed

theorem explorer_link_is_constant_witness:
  "fst (executeMoveCall example_env
          (mock_Connection [gas_object ''a1'', oracle_object ''feed''] [\<lparr>id' = ''7bc8''\<rparr>]
             (SUI_GATEWAY_ENDPOINT example_env))
          (Some (example_message ''8937''))) = Inr ''7bc8''
   \<and> fst (executeMoveCall example_env
            (mock_Connection [gas_object ''a1'', oracle_object ''feed''] [\<lparr>id' = ''ffff''\<rparr>]
               (SUI_GATEWAY_ENDPOINT example_env))
            (Some (example_message ''abc''))) = Inr ''ffff''
   \<and> fst (claim example_JSON_parse
            (mock_Connection [gas_object ''a1'', oracle_object ''feed''] [\<lparr>id' = ''7bc8''\<rparr>])
            example_env (example_request (example_text ''8937'')))
       = Inr \<lparr>source_chain = Some (JStr ''ethereum''),
               source_contract_address =
                 Some (JStr ''0xBC4CA0EdA7647A8aB7C2061c2E118A18a936f13D''),
               source_token_id = Some (JStr ''8937''),
               sui_explorer_link =
                 ''https://djgd7fpxio1yh.cloudfront.net/objects/7bc832ec31709638cd8d9323e90edf332gff4389''\<rparr>
   \<and> fst (claim example_JSON_parse
            (mock_Connection [gas_object ''a1'', oracle_object ''feed''] [\<lparr>id' = ''ffff''\<rparr>])
            example_env (example_request (example_text ''abc'')))
       = Inr \<lparr>source_chain = Some (JStr ''ethereum''),
               source_contract_address =
                 Some (JStr ''0xBC4CA0EdA7647A8aB7C2061c2E118A18a936f13D''),
               source_token_id = Some (JStr ''abc''),
               sui_explorer_link =
                 ''https://djgd7fpxio1yh.cloudfront.net/objects/7bc832ec31709638cd8d9323e90edf332gff4389''\<rparr>"
proof -
  let ?objects = "[gas_object ''a1'', oracle_object ''feed'']"
  have x: "fst (executeMoveCall example_env
                  (mock_Connection ?objects [\<lparr>id' = ''7bc8''\<rparr>] (SUI_GATEWAY_ENDPOINT example_env))
                  (Some (example_message ''8937''))) = Inr ''7bc8''"
          "fst (executeMoveCall example_env
                  (mock_Connection ?objects [\<lparr>id' = ''ffff''\<rparr>] (SUI_GATEWAY_ENDPOINT example_env))
                  (Some (example_message ''abc''))) = Inr ''ffff''"
    by (simp_all add: example_executeMoveCall)
  have a: "fst (claim example_JSON_parse (mock_Connection ?objects [\<lparr>id' = ''7bc8''\<rparr>])
                  example_env (example_request (example_text ''8937'')))
            = Inr \<lparr>source_chain = Some (JStr ''ethereum''),
                    source_contract_address =
                      Some (JStr ''0xBC4CA0EdA7647A8aB7C2061c2E118A18a936f13D''),
                    source_token_id = Some (JStr ''8937''),
                    sui_explorer_link = EXPLORER_LINK\<rparr>"
    by (simp add: example_claim [OF example_JSON_parse_8937])
  have b: "fst (claim example_JSON_parse (mock_Connection ?objects [\<lparr>id' = ''ffff''\<rparr>])
                  example_env (example_request (example_text ''abc'')))
            = Inr \<lparr>source_chain = Some (JStr ''ethereum''),
                    source_contract_address =
                      Some (JStr ''0xBC4CA0EdA7647A8aB7C2061c2E118A18a936f13D''),
                    source_token_id = Some (JStr ''abc''),
                    sui_explorer_link = EXPLORER_LINK\<rparr>"
    by (simp add: example_claim [OF example_JSON_parse_texts(1)])
  from explorer_link_is_constant [OF a b] have
    "EXPLORER_LINK =
       ''https://djgd7fpxio1yh.cloudfront.net/objects/7bc832ec31709638cd8d9323e90edf332gff4389''"
    by simp
  with x a b show ?thesis by simp
qed

subsection \<open>The claims about rejection\<close>

lemma parseClaimInfo_incomplete:
  assumes m: "get_prop (Some data) ''message'' = Inr (Some m)"
      and n: "m \<noteq> JNull"
      and f: "\<exists>k \<in> set ClaimInfo_fields. \<exists>v. get_prop (Some m) k = Inr v \<and> \<not> truthy v"
  shows "parseClaimInfo data = Inl (ValidateError (Some m) ''Wrong format for wallet message'')"
proof (cases m)
  case (JObj kvs)
  with f have "\<not> (\<forall>k \<in> set ClaimInfo_fields. truthy (map_of kvs k))" by auto
  with parseClaimInfo_object [of data kvs] m JObj show ?thesis by simp
qed (use m n in \<open>simp_all add: parseClaimInfo_def isAirdropClaimInfo_primitive\<close>)

text \<open>
  C2, as the claim states it, fails: a malformed message text ends the claim with the
  SyntaxError of \<open>JSON.parse\<close>, which is no \<open>ValidateError\<close> and carries no value; and
  a well-formed text without a \<open>message\<close> member, where all five fields are missing,
  ends it with the TypeError of reading \<open>source_chain\<close> from \<open>undefined\<close>.
\<close>

theorem malformed_message_counterexample:
  "example_JSON_parse ''{'' = None
   \<and> claim example_JSON_parse (mock_Connection [] []) example_env (example_request ''{'')
       = (Inl SyntaxError, [])
   \<and> \<not> (\<exists>v m. fst (claim example_JSON_parse (mock_Connection [] []) example_env
                       (example_request ''{''))
                = Inl (ValidateError v m))
   \<and> example_JSON_parse ''{}'' = Some (JObj [])
   \<and> claim example_JSON_parse (mock_Connection [] []) example_env (example_request ''{}'')
       = (Inl (TypeError ''source_chain''), [])"
  by (simp add: example_JSON_parse_texts claim_def example_request_def parseClaimInfo_def
        isAirdropClaimInfo_def)

text \<open>
  C2, amended. When the message text deserializes and its \<open>message\<close> member is present
  and not \<open>null\<close>, and one of the five fields is missing or falsy (empty, \<open>null\<close>,
  \<open>false\<close>, \<open>0\<close>), the claim ends with a \<open>ValidateError\<close> that carries that member.
  And whenever the claim is refused before the connection is made, malformed text
  included, no chain I/O has been performed.
\<close>

theorem incomplete_payload_rejected:
  "(JSON_parse (wallet_message rq) = Some data
      \<and> get_prop (Some data) ''message'' = Inr (Some m) \<and> m \<noteq> JNull
      \<and> (\<exists>k \<in> set ClaimInfo_fields. \<exists>v. get_prop (Some m) k = Inr v \<and> \<not> truthy v)
    \<longrightarrow> claim JSON_parse new_Connection e rq
          = (Inl (ValidateError (Some m) ''Wrong format for wallet message''), []))
   \<and> (JSON_parse (wallet_message rq) = None
    \<longrightarrow> claim JSON_parse new_Connection e rq = (Inl SyntaxError, []))
   \<and> (JSON_parse (wallet_message rq) = Some data \<and> parseClaimInfo data = Inl err
    \<longrightarrow> claim JSON_parse new_Connection e rq = (Inl err, []))"
proof (intro conjI impI)
  assume a: "JSON_parse (wallet_message rq) = Some data
      \<and> get_prop (Some data) ''message'' = Inr (Some m) \<and> m \<noteq> JNull
      \<and> (\<exists>k \<in> set ClaimInfo_fields. \<exists>v. get_prop (Some m) k = Inr v \<and> \<not> truthy v)"
  then have "parseClaimInfo data
               = Inl (ValidateError (Some m) ''Wrong format for wallet message'')"
    by (intro parseClaimInfo_incomplete) simp_all
  with a show "claim JSON_parse new_Connection e rq
          = (Inl (ValidateError (Some m) ''Wrong format for wallet message''), [])"
    by (simp add: claim_not_parsed)
next
  assume "JSON_parse (wallet_message rq) = None"
  then show "claim JSON_parse new_Connection e rq = (Inl SyntaxError, [])"
    by (rule claim_not_parsed)
next
  assume "JSON_parse (wallet_message rq) = Some data \<and> parseClaimInfo data = Inl err"
  then show "claim JSON_parse new_Connection e rq = (Inl err, [])"
    by (simp add: claim_not_parsed)
qed

theorem incomplete_payload_rejected_witness:
  "example_JSON_parse (wallet_message (example_request (example_text [])))
     = Some (example_data [])
   \<and> get_prop (Some (example_data [])) ''message'' = Inr (Some (example_message []))
   \<and> example_message [] \<noteq> JNull
   \<and> (\<exists>k \<in> set ClaimInfo_fields. \<exists>v.
         get_prop (Some (example_message [])) k = Inr v \<and> \<not> truthy v)
   \<and> claim example_JSON_parse (mock_Connection [] []) example_env
        (example_request (example_text []))
       = (Inl (ValidateError (Some (example_message [])) ''Wrong format for wallet message''), [])
   \<and> example_JSON_parse (wallet_message (example_request ''{'')) = None
   \<and> claim example_JSON_parse (mock_Connection [] []) example_env (example_request ''{'')
       = (Inl SyntaxError, [])
   \<and> example_JSON_parse (wallet_message (example_request ''{}'')) = Some (JObj [])
   \<and> parseClaimInfo (JObj []) = Inl (TypeError ''source_chain'')
   \<and> claim example_JSON_parse (mock_Connection [] []) example_env (example_request ''{}'')
       = (Inl (TypeError ''source_chain''), [])"
proof -
  have j: "example_JSON_parse (wallet_message (example_request (example_text [])))
             = Some (example_data [])"
    by (simp add: example_request_def example_JSON_parse_texts)
  have m: "get_prop (Some (example_data [])) ''message'' = Inr (Some (example_message []))"
    by (simp add: example_data_def)
  have n: "example_message [] \<noteq> JNull"
    by (simp add: example_message_def)
  have "get_prop (Some (example_message [])) ''source_token_id'' = Inr (Some (JStr []))
        \<and> \<not> truthy (Some (JStr []))"
    by (simp add: example_message_def)
  then have f: "\<exists>k \<in> set ClaimInfo_fields. \<exists>v.
         get_prop (Some (example_message [])) k = Inr v \<and> \<not> truthy v"
    unfolding ClaimInfo_fields_def by (intro bexI [of _ "''source_token_id''"]) auto
  have s: "example_JSON_parse (wallet_message (example_request ''{'')) = None"
    by (simp add: example_request_def example_JSON_parse_texts)
  have o: "example_JSON_parse (wallet_message (example_request ''{}'')) = Some (JObj [])"
    by (simp add: example_request_def example_JSON_parse_texts)
  have t: "parseClaimInfo (JObj []) = Inl (TypeError ''source_chain'')"
    by (simp add: parseClaimInfo_def isAirdropClaimInfo_def)
  note thm1 = incomplete_payload_rejected
         [where JSON_parse = example_JSON_parse and rq = "example_request (example_text [])"
            and data = "example_data []" and m = "example_message []"
            and new_Connection = "mock_Connection [] []" and e = example_env]
  note thm2 = incomplete_payload_rejected
         [where JSON_parse = example_JSON_parse and rq = "example_request ''{''"
            and new_Connection = "mock_Connection [] []" and e = example_env]
  note thm3 = incomplete_payload_rejected
         [where JSON_parse = example_JSON_parse and rq = "example_request ''{}''"
            and data = "JObj []" and err = "TypeError ''source_chain''"
            and new_Connection = "mock_Connection [] []" and e = example_env]
  from thm1 j m n f have c1: "claim example_JSON_parse (mock_Connection [] []) example_env
        (example_request (example_text []))
       = (Inl (ValidateError (Some (example_message [])) ''Wrong format for wallet message''), [])"
    by blast
  from thm2 s have c2: "claim example_JSON_parse (mock_Connection [] []) example_env
        (example_request ''{'') = (Inl SyntaxError, [])"
    by blast
  from thm3 o t have c3: "claim example_JSON_parse (mock_Connection [] []) example_env
        (example_request ''{}'') = (Inl (TypeError ''source_chain''), [])"
    by blast
  from j m n f c1 s c2 o t c3 show ?thesis by blast
qed

text \<open>
  C4, as the claim states it, fails: the token id \<open>abc\<close> passes the parser, is turned
  into \<open>NaN\<close> and handed to the move call, and the claim completes; the token id of one
  space is accepted too, and is turned into \<open>0\<close>.
\<close>

theorem non_numeric_token_id_counterexample:
  "claim example_JSON_parse
      (mock_Connection [gas_object ''a1'', oracle_object ''feed''] [\<lparr>id' = ''7bc8''\<rparr>])
      example_env (example_request (example_text ''abc''))
     = (Inr \<lparr>source_chain = Some (JStr ''ethereum''),
              source_contract_address =
                Some (JStr ''0xBC4CA0EdA7647A8aB7C2061c2E118A18a936f13D''),
              source_token_id = Some (JStr ''abc''),
              sui_explorer_link = EXPLORER_LINK\<rparr>,
        [NewConnection (Some ''http://127.0.0.1:5000''),
         BulkFetchObjects (Some ''0xc0ffee''),
         CallMoveFunction
           \<lparr>args = [Some (JStr ''0xfeed''),
                    Some (JStr ''0xa5e6dbcf33730ace6ec8b400ff4788c1f150ff7e''),
                    Some (JStr ''0xBC4CA0EdA7647A8aB7C2061c2E118A18a936f13D''),
                    Some (JNum NaN),
                    Some (JStr ''BoredApeYachtClub''),
                    Some (JStr ''ipfs://abc'')],
            function' = Some ''claim'',
            gasBudget = 2000,
            gasObjectId = ''0xa1'',
            module' = ''CrossChainAirdrop'',
            packageObjectId = ''0x2'',
            sender = Some ''0xc0ffee''\<rparr>])
   \<and> parseClaimInfo (example_data '' '') = Inr (Some (example_message '' ''))
   \<and> unary_plus (Some (JStr '' '')) = Inr (Num 0)"
proof -
  have z: "unary_plus (Some (JStr '' '')) = Inr (Num 0)"
    by (simp add: unary_plus_string StringToNumber_examples)
  have p: "parseClaimInfo (example_data '' '') = Inr (Some (example_message '' ''))"
    by (simp add: example_parseClaimInfo)
  show ?thesis
    unfolding example_claim [OF example_JSON_parse_texts(1), simplified]
      StringToNumber_examples
    using z p by simp
qed

text \<open>
  C4, amended. Of \<open>source_token_id\<close> the parser checks only that it is present and
  truthy: a payload with its five fields truthy is accepted whatever the form of the
  token id. A token id that is a string is not rejected at the building of the
  invocation either: the invocation is built with \<open>+source_token_id\<close> as its fourth
  argument, which is \<open>NaN\<close> when the string starts with a character that is no white
  space and that no numeric literal starts with, and \<open>0\<close> when the string is white
  space only.
\<close>

theorem token_id_checked_for_presence_only:
  assumes "get_prop (Some data) ''message'' = Inr (Some (JObj kvs))"
      and "\<forall>k \<in> set ClaimInfo_fields. truthy (map_of kvs k)"
  shows "parseClaimInfo data = Inr (Some (JObj kvs))
         \<and> (\<forall>s. map_of kvs ''source_token_id'' = Some (JStr s)
               \<longrightarrow> (\<exists>request.
                      build_request e a g orc (Some (JObj kvs)) = Inr request
                    \<and> args request ! 3 = Some (JNum (StringToNumber s))))
         \<and> (\<forall>c t. map_of kvs ''source_token_id'' = Some (JStr (c # t))
                  \<and> \<not> StrWhiteSpaceChar c \<and> \<not> numeric_start c
               \<longrightarrow> (\<exists>request.
                      build_request e a g orc (Some (JObj kvs)) = Inr request
                    \<and> args request ! 3 = Some (JNum NaN)))
         \<and> (\<forall>s. map_of kvs ''source_token_id'' = Some (JStr s)
                  \<and> list_all StrWhiteSpaceChar s
               \<longrightarrow> (\<exists>request.
                      build_request e a g orc (Some (JObj kvs)) = Inr request
                    \<and> args request ! 3 = Some (JNum (Num 0))))"
proof -
  from parseClaimInfo_object [OF assms(1)] assms(2)
  have p: "parseClaimInfo data = Inr (Some (JObj kvs))" by simp
  have b: "\<exists>request.
             build_request e a g orc (Some (JObj kvs)) = Inr request
           \<and> args request ! 3 = Some (JNum (StringToNumber s))"
    if "map_of kvs ''source_token_id'' = Some (JStr s)" for s
    using that by (simp add: build_request_object unary_plus_string)
  have n: "\<exists>request.
             build_request e a g orc (Some (JObj kvs)) = Inr request
           \<and> args request ! 3 = Some (JNum NaN)"
    if "map_of kvs ''source_token_id'' = Some (JStr (c # t))"
      and "\<not> StrWhiteSpaceChar c" and "\<not> numeric_start c" for c t
    using b [OF that(1)] StringToNumber_not_numeric [OF that(2) that(3), of t] by simp
  have z: "\<exists>request.
             build_request e a g orc (Some (JObj kvs)) = Inr request
           \<and> args request ! 3 = Some (JNum (Num 0))"
    if "map_of kvs ''source_token_id'' = Some (JStr s)" and "list_all StrWhiteSpaceChar s" for s
    using b [OF that(1)] StringToNumber_white_space [OF that(2)] by simp
  from p b n z show ?thesis by blast
qed

theorem token_id_checked_for_presence_only_witness:
  "get_prop (Some (example_data ''abc'')) ''message'' = Inr (Some (example_message ''abc''))
   \<and> parseClaimInfo (example_data ''abc'') = Inr (Some (example_message ''abc''))
   \<and> \<not> StrWhiteSpaceChar CHR ''a'' \<and> \<not> numeric_start CHR ''a''
   \<and> (\<exists>request.
         build_request example_env (Some ''0xc0ffee'') ''0xa1'' ''0xfeed''
           (Some (example_message ''abc'')) = Inr request
       \<and> args request ! 3 = Some (JNum NaN))
   \<and> get_prop (Some (example_data '' '')) ''message'' = Inr (Some (example_message '' ''))
   \<and> parseClaimInfo (example_data '' '') = Inr (Some (example_message '' ''))
   \<and> list_all StrWhiteSpaceChar '' ''
   \<and> (\<exists>request.
         build_request example_env (Some ''0xc0ffee'') ''0xa1'' ''0xfeed''
           (Some (example_message '' '')) = Inr request
       \<and> args request ! 3 = Some (JNum (Num 0)))
   \<and> get_prop (Some (example_data ''8937'')) ''message'' = Inr (Some (example_message ''8937''))
   \<and> parseClaimInfo (example_data ''8937'') = Inr (Some (example_message ''8937''))
   \<and> (\<exists>request.
         build_request example_env (Some ''0xc0ffee'') ''0xa1'' ''0xfeed''
           (Some (example_message ''8937'')) = Inr request
       \<and> args request ! 3 = Some (JNum (Num 8937)))"
proof -
  define kvs where "kvs t =
      [(''source_chain'', JStr ''ethereum''),
       (''source_contract_address'', JStr ''0xBC4CA0EdA7647A8aB7C2061c2E118A18a936f13D''),
       (''source_token_id'', JStr t),
       (''source_owner_address'', JStr ''0x09dbc4a902199bbe7f7ec29b3714731786f2e878''),
       (''destination_sui_address'', JStr ''0xa5e6dbcf33730ace6ec8b400ff4788c1f150ff7e'')]"
    for t :: string
  have msg: "example_message t = JObj (kvs t)" for t
    by (simp add: example_message_def kvs_def)
  have m: "get_prop (Some (example_data t)) ''message'' = Inr (Some (JObj (kvs t)))" for t
    by (simp add: example_data_def msg)
  have f: "\<forall>k \<in> set ClaimInfo_fields. truthy (map_of (kvs t) k)" if "t \<noteq> []" for t
    using that by (simp add: ClaimInfo_fields_def kvs_def)
  have tok: "map_of (kvs t) ''source_token_id'' = Some (JStr t)" for t
    by (simp add: kvs_def)
  have ca: "\<not> StrWhiteSpaceChar CHR ''a''" "\<not> numeric_start CHR ''a''"
    by (simp_all add: StrWhiteSpaceChar_def numeric_start_def DecimalDigit_def)
  have ws: "list_all StrWhiteSpaceChar '' ''"
    by (simp add: StrWhiteSpaceChar_def)
  note abc = token_id_checked_for_presence_only
               [OF m [of "''abc''"] f [of "''abc''"], of example_env "Some ''0xc0ffee''"
                  "''0xa1''" "''0xfeed''"]
  note blank = token_id_checked_for_presence_only
               [OF m [of "'' ''"] f [of "'' ''"], of example_env "Some ''0xc0ffee''"
                  "''0xa1''" "''0xfeed''"]
  note digits = token_id_checked_for_presence_only
               [OF m [of "''8937''"] f [of "''8937''"], of example_env "Some ''0xc0ffee''"
                  "''0xa1''" "''0xfeed''"]
  from abc have a1: "parseClaimInfo (example_data ''abc'') = Inr (Some (JObj (kvs ''abc'')))"
    by simp
  from abc tok [of "''abc''"] ca
  have a2: "\<exists>request.
         build_request example_env (Some ''0xc0ffee'') ''0xa1'' ''0xfeed''
           (Some (JObj (kvs ''abc''))) = Inr request
       \<and> args request ! 3 = Some (JNum NaN)"
    by blast
  from blank have b1: "parseClaimInfo (example_data '' '') = Inr (Some (JObj (kvs '' '')))"
    by simp
  from blank tok [of "'' ''"] ws
  have b2: "\<exists>request.
         build_request example_env (Some ''0xc0ffee'') ''0xa1'' ''0xfeed''
           (Some (JObj (kvs '' ''))) = Inr request
       \<and> args request ! 3 = Some (JNum (Num 0))"
    by blast
  from digits have d1: "parseClaimInfo (example_data ''8937'') = Inr (Some (JObj (kvs ''8937'')))"
    by simp
  from digits tok [of "''8937''"]
  have "\<exists>request.
         build_request example_env (Some ''0xc0ffee'') ''0xa1'' ''0xfeed''
           (Some (JObj (kvs ''8937''))) = Inr request
       \<and> args request ! 3 = Some (JNum (StringToNumber ''8937''))"
    by blast
  then have d2: "\<exists>request.
         build_request example_env (Some ''0xc0ffee'') ''0xa1'' ''0xfeed''
           (Some (JObj (kvs ''8937''))) = Inr request
       \<and> args request ! 3 = Some (JNum (Num 8937))"
    by (simp add: StringToNumber_examples)
  from a1 a2 b1 b2 d1 d2 ca ws m [of "''abc''"] m [of "'' ''"] m [of "''8937''"]
  show ?thesis by (simp add: msg)
qed

subsection \<open>The claims about the invocation\<close>





end
